theory Spec2Isabelle
  imports Complex_Main "HOL-Library.Sublist"
begin

section \<open>Python values\<close>

text \<open>
  The program (\<^verbatim>\<open>app2.py\<close>) passes around the values that \<^verbatim>\<open>json.loads\<close> and
  \<^verbatim>\<open>response.json()\<close> produce: \<^verbatim>\<open>None\<close>, booleans, numbers, strings, lists and
  dictionaries. A dictionary is an association list in insertion order; Python keeps
  its keys distinct. A \<open>char\<close> stands for one Python character, so the model covers
  strings whose code points are below 256. A float is a rational or one of the three
  special values that \<^verbatim>\<open>json.loads\<close> accepts.
\<close>

datatype pyfloat = Finite rat | PosInf | NegInf | NaN

datatype pyval =
    PNone
  | PBool bool
  | PInt int
  | PFloat pyfloat
  | PStr string
  | PList "pyval list"
  | PDict "(string \<times> pyval) list"

type_synonym pydict = "(string \<times> pyval) list"

text \<open>The exceptions the modelled code can meet. \<open>LibraryError\<close> stands for whatever
  \<^verbatim>\<open>requests\<close>, \<^verbatim>\<open>fitz\<close> or a file object raises.\<close>

datatype exn =
    AttributeError
  | KeyError
  | IndexError
  | TypeError
  | JSONDecodeError
  | LibraryError string

text \<open>Python's truth value of an object, as tested by \<^verbatim>\<open>if x:\<close> and \<^verbatim>\<open>not x\<close>.\<close>

fun truthy :: "pyval \<Rightarrow> bool" where
  "truthy PNone = False"
| "truthy (PBool b) = b"
| "truthy (PInt i) = (i \<noteq> 0)"
| "truthy (PFloat f) = (f \<noteq> Finite 0)"
| "truthy (PStr s) = (s \<noteq> [])"
| "truthy (PList xs) = (xs \<noteq> [])"
| "truthy (PDict d) = (d \<noteq> [])"

text \<open>Sequencing of computations that may raise.\<close>

definition and_then :: "exn + 'a \<Rightarrow> ('a \<Rightarrow> exn + 'b) \<Rightarrow> exn + 'b" where
  "and_then m f = (case m of Inl e \<Rightarrow> Inl e | Inr v \<Rightarrow> f v)"

text \<open>\<^verbatim>\<open>obj.get(key, default)\<close>: only a dictionary has the method.\<close>

definition dict_get :: "pyval \<Rightarrow> string \<Rightarrow> pyval \<Rightarrow> exn + pyval" where
  "dict_get obj key dflt =
     (case obj of
        PDict d \<Rightarrow> (case map_of d key of Some v \<Rightarrow> Inr v | None \<Rightarrow> Inr dflt)
      | _ \<Rightarrow> Inl AttributeError)"

text \<open>\<^verbatim>\<open>obj.items()\<close>: only a dictionary has the method.\<close>

definition dict_items :: "pyval \<Rightarrow> exn + pydict" where
  "dict_items obj = (case obj of PDict d \<Rightarrow> Inr d | _ \<Rightarrow> Inl AttributeError)"

section \<open>PPTStyleAnalyzer.merge_styles\<close>

text \<open>
  \<^verbatim>\<open>any(style.get("has_diagrams", False) for style in styles_list)\<close>: the generator is
  consumed up to the first truthy value.
\<close>

fun any_has_diagrams :: "pyval list \<Rightarrow> exn + bool" where
  "any_has_diagrams [] = Inr False"
| "any_has_diagrams (style # rest) =
     and_then (dict_get style ''has_diagrams'' (PBool False))
       (\<lambda>v. if truthy v then Inr True else any_has_diagrams rest)"

text \<open>
  The innermost loop,
  \<^verbatim>\<open>for key, value in items: if key not in merged and value: merged[key] = value\<close>.
  A new key goes to the end of the dictionary.
\<close>

fun merge_items :: "pydict \<Rightarrow> pydict \<Rightarrow> pydict" where
  "merge_items [] merged = merged"
| "merge_items ((key, value) # rest) merged =
     merge_items rest
       (if key \<notin> set (map fst merged) \<and> truthy value then merged @ [(key, value)]
        else merged)"

text \<open>
  \<^verbatim>\<open>for style in styles_list: if style.get(category): for key, value in
  style[category].items(): ...\<close>, on the nested dictionary \<^verbatim>\<open>merged_style[category]\<close>.
  The four nested dictionaries are separate objects, so each loop is a function of
  the one it fills.
\<close>

fun merge_category :: "string \<Rightarrow> pyval list \<Rightarrow> pydict \<Rightarrow> exn + pydict" where
  "merge_category category [] merged = Inr merged"
| "merge_category category (style # rest) merged =
     and_then (dict_get style category PNone)
       (\<lambda>c. if truthy c
             then and_then (dict_items c)
                    (\<lambda>items. merge_category category rest (merge_items items merged))
             else merge_category category rest merged)"

text \<open>
  The last loop: the first truthy \<^verbatim>\<open>brand_description\<close> is taken and the loop
  left by \<^verbatim>\<open>break\<close>; \<open>brand\<close> is \<^verbatim>\<open>merged_style["brand_description"]\<close>.
\<close>

fun merge_brand :: "pyval list \<Rightarrow> pyval \<Rightarrow> exn + pyval" where
  "merge_brand [] brand = Inr brand"
| "merge_brand (style # rest) brand =
     and_then (dict_get style ''brand_description'' PNone)
       (\<lambda>v. if truthy v \<and> \<not> truthy brand then Inr v else merge_brand rest brand)"

definition merge_styles :: "pyval list \<Rightarrow> exn + pyval" where
  "merge_styles styles_list =
     (if styles_list = [] then Inr PNone
      else if length styles_list = 1 then Inr (hd styles_list)
      else
        and_then (any_has_diagrams styles_list) (\<lambda>has_diagrams.
        and_then (merge_category ''color_palette'' styles_list []) (\<lambda>color_palette.
        and_then (merge_category ''typography'' styles_list []) (\<lambda>typography.
        and_then (merge_category ''layout'' styles_list []) (\<lambda>layout.
        and_then (merge_category ''visual_style'' styles_list []) (\<lambda>visual_style.
        and_then (merge_brand styles_list (PStr '''')) (\<lambda>brand_description.
          Inr (PDict
            [(''color_palette'', PDict color_palette),
             (''typography'', PDict typography),
             (''layout'', PDict layout),
             (''visual_style'', PDict visual_style),
             (''brand_description'', brand_description),
             (''has_diagrams'', PBool has_diagrams)]))))))))"

section \<open>Strings and subscripts\<close>

text \<open>\<^verbatim>\<open>s.find(sub)\<close>: the lowest index at which \<open>sub\<close> occurs, or -1.\<close>

fun first_index :: "string \<Rightarrow> string \<Rightarrow> nat option" where
  "first_index sub [] = (if sub = [] then Some 0 else None)"
| "first_index sub (c # cs) =
     (if prefix sub (c # cs) then Some 0 else map_option Suc (first_index sub cs))"

definition str_find :: "string \<Rightarrow> string \<Rightarrow> int" where
  "str_find s sub = (case first_index sub s of None \<Rightarrow> - 1 | Some i \<Rightarrow> int i)"

text \<open>\<^verbatim>\<open>s[a:b]\<close>: a negative bound counts from the end, and bounds are clipped.\<close>

definition py_slice :: "string \<Rightarrow> int \<Rightarrow> int \<Rightarrow> string" where
  "py_slice s a b =
     (let n = int (length s);
          lo = (if a < 0 then max 0 (a + n) else min a n);
          hi = (if b < 0 then max 0 (b + n) else min b n)
      in take (nat (hi - lo)) (drop (nat lo) s))"

text \<open>
  \<^verbatim>\<open>s.replace(old, new)\<close>, every occurrence from the left, none overlapping. The
  source's patterns are not empty; the model leaves the text alone for an empty one.
\<close>

function replace :: "string \<Rightarrow> string \<Rightarrow> string \<Rightarrow> string" where
  "replace old new [] = []"
| "replace old new (c # cs) =
     (if old \<noteq> [] \<and> prefix old (c # cs)
      then new @ replace old new (drop (length old) (c # cs))
      else c # replace old new cs)"
  by pat_completeness auto
termination
  by (relation "measure (\<lambda>(old, new, s). length s)") auto

text \<open>\<^verbatim>\<open>s.strip()\<close>: the white space of Python among the characters below 256.\<close>

definition py_whitespace :: "char \<Rightarrow> bool" where
  "py_whitespace c = ((of_char c :: nat) \<in> {9, 10, 11, 12, 13, 28, 29, 30, 31, 32, 133, 160})"

definition strip :: "string \<Rightarrow> string" where
  "strip s = rev (dropWhile py_whitespace (rev (dropWhile py_whitespace s)))"

text \<open>\<^verbatim>\<open>obj[key]\<close> with a string key, and \<^verbatim>\<open>obj[i]\<close> with an index that is not negative.\<close>

definition getitem_key :: "pyval \<Rightarrow> string \<Rightarrow> exn + pyval" where
  "getitem_key obj key =
     (case obj of
        PDict d \<Rightarrow> (case map_of d key of Some v \<Rightarrow> Inr v | None \<Rightarrow> Inl KeyError)
      | _ \<Rightarrow> Inl TypeError)"

definition getitem_index :: "pyval \<Rightarrow> nat \<Rightarrow> exn + pyval" where
  "getitem_index obj i =
     (case obj of
        PList xs \<Rightarrow> (if i < length xs then Inr (xs ! i) else Inl IndexError)
      | PStr s \<Rightarrow> (if i < length s then Inr (PStr [s ! i]) else Inl IndexError)
      | PDict d \<Rightarrow> Inl KeyError
      | _ \<Rightarrow> Inl TypeError)"

text \<open>\<^verbatim>\<open>result['choices'][0]['message']['content']\<close>.\<close>

definition message_content :: "pyval \<Rightarrow> exn + pyval" where
  "message_content result =
     and_then (getitem_key result ''choices'') (\<lambda>choices.
     and_then (getitem_index choices 0) (\<lambda>choice.
     and_then (getitem_key choice ''message'') (\<lambda>message.
       getitem_key message ''content'')))"

text \<open>
  \<^verbatim>\<open>content.replace('```json', '').replace('```', '').strip()\<close>: only a string has
  the method.
\<close>

definition clean_content :: "pyval \<Rightarrow> exn + string" where
  "clean_content content =
     (case content of
        PStr s \<Rightarrow> Inr (strip (replace ''```'' [] (replace ''```json'' [] s)))
      | _ \<Rightarrow> Inl AttributeError)"

section \<open>The outside world\<close>

text \<open>
  Library functions that are not code of the repository are parameters of the model:
  \<^verbatim>\<open>json.loads\<close> (a value, or an exception, \<^verbatim>\<open>JSONDecodeError\<close> among them),
  \<^verbatim>\<open>str\<close> on a value that is not a string, and \<^verbatim>\<open>base64.b64encode\<close>.
\<close>

record library =
  loads :: "string \<Rightarrow> exn + pyval"
  str_of :: "pyval \<Rightarrow> string"
  b64encode :: "string \<Rightarrow> string"

text \<open>
  What \<^verbatim>\<open>requests.post\<close> gives back: an exception, or a response with its status
  code, its text and what \<^verbatim>\<open>response.json()\<close> does (raise, or return a value).
\<close>

record response =
  status_code :: int
  response_text :: string
  json_body :: "exn + pyval"

datatype reply = Raises exn | Responds response

text \<open>
  The request of each operation, by the parts of its payload that vary: the page
  number and image, the image, the user's text, the prompt.
\<close>

datatype request =
    PageRequest nat string
  | ImageRequest string
  | ContentRequest string
  | SvgRequest string

text \<open>
  What the user interface is asked to show. A message is named by the place that
  emits it and carries the values formatted into it.
\<close>

datatype message =
    PagesFound nat
  | AnalyzingPage nat
  | PageImageSize nat nat
  | PageDone nat
  | PageFailed nat
  | NoStyles
  | StylesMerged nat
  | PdfError exn
  | PdfTraceback exn
  | PageJsonError nat string
  | PageHttpError nat int string
  | PageError nat exn
  | StyleHttpError int
  | StyleError exn
  | ContentHttpError int
  | ContentError exn
  | SvgNotFound
  | SvgHttpError int
  | SvgError exn

datatype level = Info | Write | Success | Warning | Error

datatype stage = StyleStage | ContentStage | SvgStage

datatype event =
    Post request
  | Ui level message
  | StatusOpen stage
  | StatusError stage
  | StatusComplete stage

text \<open>
  The world: the replies the API will give to the POSTs still to come, in order, and
  everything done so far. When the replies are used up a POST raises, as it does
  when the network is down.
\<close>

record world =
  replies :: "reply list"
  trace :: "event list"

definition emit :: "event \<Rightarrow> world \<Rightarrow> world" where
  "emit e w = w\<lparr>trace := trace w @ [e]\<rparr>"

definition post :: "request \<Rightarrow> world \<Rightarrow> (exn + response) \<times> world" where
  "post req w =
     (case replies w of
        [] \<Rightarrow> (Inl (LibraryError ''ConnectionError''), emit (Post req) w)
      | r # rs \<Rightarrow>
          ((case r of Raises e \<Rightarrow> Inl e | Responds resp \<Rightarrow> Inr resp),
           emit (Post req) (w\<lparr>replies := rs\<rparr>)))"

section \<open>PPTStyleAnalyzer.analyze_page_image\<close>

text \<open>The body of the \<^verbatim>\<open>try\<close>; \<open>Inl\<close> is an exception raised inside it. The inner
  \<^verbatim>\<open>try\<close> catches \<^verbatim>\<open>JSONDecodeError\<close> only.\<close>

definition analyze_page_image_try ::
  "library \<Rightarrow> string \<Rightarrow> nat \<Rightarrow> world \<Rightarrow> (exn + pyval) \<times> world" where
  "analyze_page_image_try lib base64_image page_num w =
     (case post (PageRequest page_num base64_image) w of
        (Inl e, w1) \<Rightarrow> (Inl e, w1)
      | (Inr response, w1) \<Rightarrow>
          if status_code response = 200 then
            (case and_then (and_then (json_body response) message_content) clean_content of
               Inl e \<Rightarrow> (Inl e, w1)
             | Inr content \<Rightarrow>
                 (case loads lib content of
                    Inl JSONDecodeError \<Rightarrow>
                      (Inr PNone, emit (Ui Warning (PageJsonError page_num (take 200 content))) w1)
                  | Inl e \<Rightarrow> (Inl e, w1)
                  | Inr style_data \<Rightarrow> (Inr style_data, w1)))
          else
            (Inr PNone,
             emit (Ui Warning
               (PageHttpError page_num (status_code response) (response_text response))) w1))"

definition analyze_page_image ::
  "library \<Rightarrow> string \<Rightarrow> nat \<Rightarrow> world \<Rightarrow> (exn + pyval) \<times> world" where
  "analyze_page_image lib base64_image page_num w =
     (case analyze_page_image_try lib base64_image page_num w of
        (Inl e, w1) \<Rightarrow> (Inr PNone, emit (Ui Warning (PageError page_num e)) w1)
      | (Inr style_data, w1) \<Rightarrow> (Inr style_data, w1))"

section \<open>PPTStyleAnalyzer.analyze_pdf_with_gpt4v\<close>

text \<open>
  An uploaded file either fails to open (\<^verbatim>\<open>read\<close>, \<^verbatim>\<open>seek\<close> or \<^verbatim>\<open>fitz.open\<close>
  raises) or is a document, a list of pages; a page either fails to render
  (\<^verbatim>\<open>get_pixmap\<close> or \<^verbatim>\<open>tobytes\<close> raises) or gives the bytes of a PNG image.
\<close>

type_synonym page = "exn + string"

type_synonym pdf_file = "exn + page list"

text \<open>\<^verbatim>\<open>doc[page_num]\<close> and its rendering.\<close>

definition render_page :: "page list \<Rightarrow> nat \<Rightarrow> exn + string" where
  "render_page doc page_num = (if page_num < length doc then doc ! page_num else Inl IndexError)"

text \<open>
  \<^verbatim>\<open>for page_num in range(max_pages)\<close>, from \<open>page_num\<close> on, with the styles
  gathered so far.
\<close>

function analyze_pages ::
  "library \<Rightarrow> page list \<Rightarrow> nat \<Rightarrow> nat \<Rightarrow> pyval list \<Rightarrow> world \<Rightarrow> (exn + pyval list) \<times> world"
  where
  "analyze_pages lib doc max_pages page_num all_styles w =
     (if page_num < max_pages then
        (let w1 = emit (Ui Write (AnalyzingPage (page_num + 1))) w in
         case render_page doc page_num of
           Inl e \<Rightarrow> (Inl e, w1)
         | Inr img_data \<Rightarrow>
             (let w2 = emit (Ui Write (PageImageSize (page_num + 1) (length img_data))) w1 in
              case analyze_page_image lib (b64encode lib img_data) (page_num + 1) w2 of
                (Inl e, w3) \<Rightarrow> (Inl e, w3)
              | (Inr page_style, w3) \<Rightarrow>
                  if truthy page_style then
                    analyze_pages lib doc max_pages (page_num + 1) (all_styles @ [page_style])
                      (emit (Ui Success (PageDone (page_num + 1))) w3)
                  else
                    analyze_pages lib doc max_pages (page_num + 1) all_styles
                      (emit (Ui Warning (PageFailed (page_num + 1))) w3)))
      else (Inr all_styles, w))"
  by pat_completeness auto
termination
  by (relation "measure (\<lambda>(lib, doc, max_pages, page_num, all_styles, w). max_pages - page_num)")
     auto

declare analyze_pages.simps [simp del]

definition analyze_pdf_with_gpt4v_try ::
  "library \<Rightarrow> pdf_file \<Rightarrow> world \<Rightarrow> (exn + pyval) \<times> world" where
  "analyze_pdf_with_gpt4v_try lib pdf_file w =
     (case pdf_file of
        Inl e \<Rightarrow> (Inl e, w)
      | Inr doc \<Rightarrow>
          (let w1 = emit (Ui Info (PagesFound (length doc))) w;
               max_pages = min 10 (length doc)
           in case analyze_pages lib doc max_pages 0 [] w1 of
                (Inl e, w2) \<Rightarrow> (Inl e, w2)
              | (Inr all_styles, w2) \<Rightarrow>
                  if all_styles = [] then (Inr PNone, emit (Ui Error NoStyles) w2)
                  else
                    (case merge_styles all_styles of
                       Inl e \<Rightarrow> (Inl e, w2)
                     | Inr unified_style \<Rightarrow>
                         (Inr unified_style,
                          emit (Ui Success (StylesMerged (length all_styles))) w2))))"

definition analyze_pdf_with_gpt4v ::
  "library \<Rightarrow> pdf_file \<Rightarrow> world \<Rightarrow> (exn + pyval) \<times> world" where
  "analyze_pdf_with_gpt4v lib pdf_file w =
     (case analyze_pdf_with_gpt4v_try lib pdf_file w of
        (Inl e, w1) \<Rightarrow>
          (Inr PNone, emit (Ui Error (PdfTraceback e)) (emit (Ui Error (PdfError e)) w1))
      | (Inr unified_style, w1) \<Rightarrow> (Inr unified_style, w1))"

section \<open>PPTStyleAnalyzer.analyze_ppt_style_single_image\<close>

text \<open>
  The image is given as bytes or as a file object, whose \<^verbatim>\<open>read\<close> and \<^verbatim>\<open>seek\<close>
  may raise; they come before the \<^verbatim>\<open>try\<close>.
\<close>

datatype image_data = Bytes string | FileObject "exn + string"

definition analyze_ppt_style_single_image_try ::
  "library \<Rightarrow> string \<Rightarrow> world \<Rightarrow> (exn + pyval) \<times> world" where
  "analyze_ppt_style_single_image_try lib base64_image w =
     (case post (ImageRequest base64_image) w of
        (Inl e, w1) \<Rightarrow> (Inl e, w1)
      | (Inr response, w1) \<Rightarrow>
          if status_code response = 200 then
            (case and_then (and_then (json_body response) message_content) clean_content of
               Inl e \<Rightarrow> (Inl e, w1)
             | Inr content \<Rightarrow>
                 (case loads lib content of
                    Inl e \<Rightarrow> (Inl e, w1)
                  | Inr style_data \<Rightarrow> (Inr style_data, w1)))
          else (Inr PNone, emit (Ui Error (StyleHttpError (status_code response))) w1))"

definition read_image :: "image_data \<Rightarrow> exn + string" where
  "read_image image_data = (case image_data of Bytes b \<Rightarrow> Inr b | FileObject r \<Rightarrow> r)"

definition analyze_ppt_style_single_image ::
  "library \<Rightarrow> image_data \<Rightarrow> world \<Rightarrow> (exn + pyval) \<times> world" where
  "analyze_ppt_style_single_image lib image_data w =
     (case read_image image_data of
        Inl e \<Rightarrow> (Inl e, w)
      | Inr data \<Rightarrow>
          (case analyze_ppt_style_single_image_try lib (b64encode lib data) w of
             (Inl e, w1) \<Rightarrow> (Inr PNone, emit (Ui Error (StyleError e)) w1)
           | (Inr style_data, w1) \<Rightarrow> (Inr style_data, w1)))"

section \<open>NaturalLanguageProcessor.process_user_request\<close>

definition process_user_request_try ::
  "library \<Rightarrow> string \<Rightarrow> world \<Rightarrow> (exn + pyval) \<times> world" where
  "process_user_request_try lib user_input w =
     (case post (ContentRequest user_input) w of
        (Inl e, w1) \<Rightarrow> (Inl e, w1)
      | (Inr response, w1) \<Rightarrow>
          if status_code response = 200 then
            (case and_then (and_then (json_body response) message_content) clean_content of
               Inl e \<Rightarrow> (Inl e, w1)
             | Inr content \<Rightarrow>
                 (case loads lib content of
                    Inl e \<Rightarrow> (Inl e, w1)
                  | Inr content_data \<Rightarrow> (Inr content_data, w1)))
          else (Inr PNone, emit (Ui Error (ContentHttpError (status_code response))) w1))"

definition process_user_request ::
  "library \<Rightarrow> string \<Rightarrow> world \<Rightarrow> (exn + pyval) \<times> world" where
  "process_user_request lib user_input w =
     (case process_user_request_try lib user_input w of
        (Inl e, w1) \<Rightarrow> (Inr PNone, emit (Ui Error (ContentError e)) w1)
      | (Inr content_data, w1) \<Rightarrow> (Inr content_data, w1))"

section \<open>SVGGenerator.create_svg_prompt\<close>

text \<open>A value formatted into an f-string: a string as it is, anything else by \<^verbatim>\<open>str\<close>.\<close>

definition py_str :: "library \<Rightarrow> pyval \<Rightarrow> string" where
  "py_str lib v = (case v of PStr s \<Rightarrow> s | _ \<Rightarrow> str_of lib v)"

text \<open>
  \<^verbatim>\<open>sep.join(xs)\<close>: \<open>xs\<close> is iterated (a list by its elements, a string by its
  characters, a dictionary by its keys) and every element must be a string.
\<close>

fun intercalate :: "string \<Rightarrow> string list \<Rightarrow> string" where
  "intercalate sep [] = []"
| "intercalate sep [x] = x"
| "intercalate sep (x # y # ys) = x @ sep @ intercalate sep (y # ys)"

fun the_strings :: "pyval list \<Rightarrow> exn + string list" where
  "the_strings [] = Inr []"
| "the_strings (PStr s # rest) = and_then (the_strings rest) (\<lambda>ss. Inr (s # ss))"
| "the_strings (_ # rest) = Inl TypeError"

definition str_join :: "string \<Rightarrow> pyval \<Rightarrow> exn + string" where
  "str_join sep xs =
     (case xs of
        PList vs \<Rightarrow> and_then (the_strings vs) (\<lambda>ss. Inr (intercalate sep ss))
      | PStr s \<Rightarrow> Inr (intercalate sep (map (\<lambda>c. [c]) s))
      | PDict d \<Rightarrow> Inr (intercalate sep (map fst d))
      | _ \<Rightarrow> Inl TypeError)"

definition fallback_prompt :: string where
  "fallback_prompt = ''Create a simple SVG diagram for a presentation slide''"

text \<open>The values formatted into the prompt template.\<close>

record slots =
  content_type :: string
  main_topic :: string
  elements :: string
  primary_color :: string
  secondary_color :: string
  accent_color :: string
  background_color :: string
  text_color :: string
  title_font :: string
  body_font :: string
  alignment :: string
  title_position :: string
  design_approach :: string

definition quoted :: "string \<Rightarrow> string" where
  "quoted s = CHR 0x22 # s @ [CHR 0x22]"

text \<open>The template: a line feed, then each line followed by a line feed.\<close>

definition svg_prompt_text :: "slots \<Rightarrow> string" where
  "svg_prompt_text s =
     CHR 0x0A # concat (map (\<lambda>line. line @ [CHR 0x0A])
      [''Generate a clean, professional SVG diagram for a presentation slide matching this exact style:'',
       [],
       ''CONTENT REQUIREMENTS:'',
       ''- Type: '' @ content_type s,
       ''- Topic: '' @ main_topic s,
       ''- Elements needed: '' @ elements s,
       [],
       ''STYLE SPECIFICATIONS:'',
       ''- Colors: Primary '' @ primary_color s @ '', Secondary '' @ secondary_color s
          @ '', Accent '' @ accent_color s,
       ''- Background: '' @ background_color s,
       ''- Text color: '' @ text_color s,
       ''- Fonts: Title '' @ quoted (title_font s) @ '', Body '' @ quoted (body_font s),
       ''- Layout: '' @ alignment s @ '' aligned, title '' @ title_position s,
       ''- Design approach: '' @ design_approach s,
       [],
       ''SVG REQUIREMENTS:'',
       ''- Create a complete SVG (width='' @ quoted ''1024'' @ '' height='' @ quoted ''768'' @ '')'',
       ''- Clean, simple shapes - circles, rectangles, lines only'',
       ''- Professional presentation quality'',
       ''- Readable text with appropriate font sizes'',
       ''- Proper spacing and margins'',
       ''- Use exact color codes specified above'',
       ''- Include title and clear labels'',
       ''- Simple, educational diagram style (NOT artistic or 3D)'',
       [],
       ''IMPORTANT: Respond with ONLY the complete SVG code, starting with <svg> and ending with </svg>. Do not include any explanation or markdown formatting.'',
       [],
       ''Example structure for neural network:'',
       ''- Use circles for nodes'',
       ''- Use straight lines for connections  '',
       ''- Label each layer clearly'',
       ''- Keep it flat and 2D'',
       ''- Use grid-like positioning''])"

definition create_svg_prompt :: "library \<Rightarrow> pyval \<Rightarrow> pyval \<Rightarrow> exn + string" where
  "create_svg_prompt lib style_data content_data =
     (if \<not> truthy style_data \<or> \<not> truthy content_data then Inr fallback_prompt
      else
        and_then (dict_get style_data ''color_palette'' (PDict [])) (\<lambda>colors.
        and_then (dict_get colors ''primary'' (PStr ''#1f4e79'')) (\<lambda>primary.
        and_then (dict_get colors ''secondary'' (PStr ''#5b9bd5'')) (\<lambda>secondary.
        and_then (dict_get colors ''accent'' (PStr ''#f79646'')) (\<lambda>accent.
        and_then (dict_get colors ''background'' (PStr ''#ffffff'')) (\<lambda>background.
        and_then (dict_get colors ''text'' (PStr ''#2f2f2f'')) (\<lambda>text_col.
        and_then (dict_get style_data ''typography'' (PDict [])) (\<lambda>typography.
        and_then (dict_get typography ''title_font'' (PStr ''Arial Bold'')) (\<lambda>title.
        and_then (dict_get typography ''body_font'' (PStr ''Arial Regular'')) (\<lambda>body.
        and_then (dict_get style_data ''layout'' (PDict [])) (\<lambda>layout.
        and_then (dict_get layout ''alignment'' (PStr ''center'')) (\<lambda>align.
        and_then (dict_get layout ''title_position'' (PStr ''top-center'')) (\<lambda>position.
        and_then (dict_get style_data ''visual_style'' (PDict [])) (\<lambda>visual_style.
        and_then (dict_get visual_style ''design_approach'' (PStr ''professional'')) (\<lambda>design.
        and_then (dict_get content_data ''content_type'' (PStr ''diagram'')) (\<lambda>ctype.
        and_then (dict_get content_data ''main_topic'' (PStr ''Technical diagram'')) (\<lambda>topic.
        and_then (dict_get content_data ''specific_elements'' (PList [])) (\<lambda>specific_elements.
        and_then (str_join '', '' specific_elements) (\<lambda>joined.
          Inr (svg_prompt_text
            \<lparr>content_type = py_str lib ctype,
             main_topic = py_str lib topic,
             elements = joined,
             primary_color = py_str lib primary,
             secondary_color = py_str lib secondary,
             accent_color = py_str lib accent,
             background_color = py_str lib background,
             text_color = py_str lib text_col,
             title_font = py_str lib title,
             body_font = py_str lib body,
             alignment = py_str lib align,
             title_position = py_str lib position,
             design_approach = py_str lib design\<rparr>))))))))))))))))))))"

section \<open>SVGGenerator.generate_svg\<close>

text \<open>The body of the \<^verbatim>\<open>try\<close>. \<^verbatim>\<open>svg_content.find\<close> needs a string.\<close>

definition generate_svg_try ::
  "string \<Rightarrow> world \<Rightarrow> (exn + pyval \<times> pyval) \<times> world" where
  "generate_svg_try prompt w =
     (case post (SvgRequest prompt) w of
        (Inl e, w1) \<Rightarrow> (Inl e, w1)
      | (Inr response, w1) \<Rightarrow>
          if status_code response = 200 then
            (case and_then (json_body response) message_content of
               Inl e \<Rightarrow> (Inl e, w1)
             | Inr (PStr svg_content) \<Rightarrow>
                 (let svg_start = str_find svg_content ''<svg'';
                      svg_end = str_find svg_content ''</svg>'' + 6
                  in if svg_start \<noteq> - 1 \<and> svg_end \<noteq> - 1 then
                       (Inr (PStr (py_slice svg_content svg_start svg_end), PStr prompt), w1)
                     else (Inr (PNone, PNone), emit (Ui Error SvgNotFound) w1))
             | Inr _ \<Rightarrow> (Inl AttributeError, w1))
          else (Inr (PNone, PNone), emit (Ui Error (SvgHttpError (status_code response))) w1))"

text \<open>The prompt is built before the \<^verbatim>\<open>try\<close>.\<close>

definition generate_svg ::
  "library \<Rightarrow> pyval \<Rightarrow> pyval \<Rightarrow> world \<Rightarrow> (exn + pyval \<times> pyval) \<times> world" where
  "generate_svg lib style_data content_data w =
     (case create_svg_prompt lib style_data content_data of
        Inl e \<Rightarrow> (Inl e, w)
      | Inr prompt \<Rightarrow>
          (case generate_svg_try prompt w of
             (Inl e, w1) \<Rightarrow> (Inr (PNone, PNone), emit (Ui Error (SvgError e)) w1)
           | (Inr result, w1) \<Rightarrow> (Inr result, w1)))"

section \<open>PPTGenerationPipeline.generate_ppt_slide\<close>

definition generate_ppt_slide ::
  "library \<Rightarrow> pdf_file \<Rightarrow> string \<Rightarrow> world \<Rightarrow> (exn + pyval) \<times> world" where
  "generate_ppt_slide lib uploaded_file user_request w =
     (case analyze_pdf_with_gpt4v lib uploaded_file (emit (StatusOpen StyleStage) w) of
        (Inl e, w1) \<Rightarrow> (Inl e, w1)
      | (Inr style_data, w1) \<Rightarrow>
          if \<not> truthy style_data then (Inr PNone, emit (StatusError StyleStage) w1)
          else
            (case process_user_request lib user_request
                    (emit (StatusOpen ContentStage) (emit (StatusComplete StyleStage) w1)) of
               (Inl e, w2) \<Rightarrow> (Inl e, w2)
             | (Inr content_data, w2) \<Rightarrow>
                 if \<not> truthy content_data then (Inr PNone, emit (StatusError ContentStage) w2)
                 else
                   (case generate_svg lib style_data content_data
                           (emit (StatusOpen SvgStage) (emit (StatusComplete ContentStage) w2)) of
                      (Inl e, w3) \<Rightarrow> (Inl e, w3)
                    | (Inr (svg_content, final_prompt), w3) \<Rightarrow>
                        if \<not> truthy svg_content then
                          (Inr PNone, emit (StatusError SvgStage) w3)
                        else
                          (Inr (PDict
                             [(''svg_content'', svg_content),
                              (''extracted_style'', style_data),
                              (''processed_content'', content_data),
                              (''final_prompt'', final_prompt)]),
                           emit (StatusComplete SvgStage) w3))))"

section \<open>Vocabulary of the properties\<close>

text \<open>
  A dictionary as Python keeps it: no key twice.
\<close>

fun proper_dict :: "pyval \<Rightarrow> bool" where
  "proper_dict (PDict d) = distinct (map fst d)"
| "proper_dict _ = False"

definition category_names :: "string list" where
  "category_names = [''color_palette'', ''typography'', ''layout'', ''visual_style'']"

text \<open>
  A page-style dictionary: a dictionary in which each of the four categories is
  absent, falsy, or itself a dictionary. The other fields are free.
\<close>

definition category_ok :: "string \<Rightarrow> pyval \<Rightarrow> bool" where
  "category_ok category style =
     (case style of
        PDict d \<Rightarrow> (case map_of d category of None \<Rightarrow> True
                    | Some c \<Rightarrow> \<not> truthy c \<or> proper_dict c)
      | _ \<Rightarrow> False)"

definition is_page_style :: "pyval \<Rightarrow> bool" where
  "is_page_style style = list_all (\<lambda>category. category_ok category style) category_names"

text \<open>Reading a field, and a key of a nested category, of a dictionary.\<close>

definition field :: "string \<Rightarrow> pyval \<Rightarrow> pyval option" where
  "field key obj = (case obj of PDict d \<Rightarrow> map_of d key | _ \<Rightarrow> None)"

definition category_value :: "string \<Rightarrow> string \<Rightarrow> pyval \<Rightarrow> pyval option" where
  "category_value category key style =
     (case field category style of Some c \<Rightarrow> field key c | None \<Rightarrow> None)"

text \<open>
  First-write-wins, in the words of the specification: the value of the first style
  in list order whose category dictionary has a truthy value for the key.
\<close>

definition has_truthy_value :: "string \<Rightarrow> string \<Rightarrow> pyval \<Rightarrow> bool" where
  "has_truthy_value category key style =
     (case category_value category key style of Some v \<Rightarrow> truthy v | None \<Rightarrow> False)"

definition first_write :: "string \<Rightarrow> string \<Rightarrow> pyval list \<Rightarrow> pyval option" where
  "first_write category key styles =
     (case find (has_truthy_value category key) styles of
        None \<Rightarrow> None
      | Some style \<Rightarrow> category_value category key style)"

text \<open>The brand description of a style (None when missing), and the first truthy
  one in list order; the empty string when there is none.\<close>

definition brand_of :: "pyval \<Rightarrow> pyval" where
  "brand_of style =
     (case field ''brand_description'' style of Some v \<Rightarrow> v | None \<Rightarrow> PNone)"

definition first_brand :: "pyval list \<Rightarrow> pyval" where
  "first_brand styles =
     (case find (\<lambda>style. truthy (brand_of style)) styles of
        None \<Rightarrow> PStr []
      | Some style \<Rightarrow> brand_of style)"

text \<open>The has_diagrams field of a style as a truth value, a missing one being false.\<close>

definition diagrams_of :: "pyval \<Rightarrow> bool" where
  "diagrams_of style =
     (case field ''has_diagrams'' style of Some v \<Rightarrow> truthy v | None \<Rightarrow> False)"

text \<open>
  An occurrence of a marker in a text, and its first occurrence, in the words of
  the specification; \<open>first_index\<close> above is what the code computes.
\<close>

definition occurs_at :: "string \<Rightarrow> string \<Rightarrow> nat \<Rightarrow> bool" where
  "occurs_at sub s i = (i \<le> length s \<and> prefix sub (drop i s))"

definition first_occurrence :: "string \<Rightarrow> string \<Rightarrow> nat \<Rightarrow> bool" where
  "first_occurrence sub s i = (occurs_at sub s i \<and> (\<forall>k<i. \<not> occurs_at sub s k))"

text \<open>
  The value \<open>r\<close> is the parsed data of the next reply: the reply has status 200,
  its JSON body holds a text content, and \<^verbatim>\<open>json.loads\<close> of the cleaned content
  is \<open>r\<close>.
\<close>

definition parsed_reply :: "library \<Rightarrow> world \<Rightarrow> pyval \<Rightarrow> bool" where
  "parsed_reply lib w r =
     (case replies w of
        Responds response # rest \<Rightarrow>
          status_code response = 200 \<and>
          (case and_then (and_then (json_body response) message_content) clean_content of
             Inr content \<Rightarrow> loads lib content = Inr r
           | Inl e \<Rightarrow> False)
      | _ \<Rightarrow> False)"

text \<open>
  What a reply holds for an operation that parses it: the value \<^verbatim>\<open>json.loads\<close>
  makes of the cleaned content of a reply with status 200, if there is one.
\<close>

definition parsed :: "library \<Rightarrow> reply \<Rightarrow> pyval option" where
  "parsed lib reply =
     (case reply of
        Responds response \<Rightarrow>
          if status_code response = 200 then
            (case and_then (and_then (json_body response) message_content) clean_content of
               Inr content \<Rightarrow> (case loads lib content of Inr v \<Rightarrow> Some v | Inl e \<Rightarrow> None)
             | Inl e \<Rightarrow> None)
          else None
      | Raises e \<Rightarrow> None)"


definition page_styles :: "library \<Rightarrow> nat \<Rightarrow> reply list \<Rightarrow> pyval list" where
  "page_styles lib n rs = filter truthy (List.map_filter (parsed lib) (take n rs))"


text \<open>
  The POST requests among the events of a world, in order.
\<close>

fun post_of :: "event \<Rightarrow> request list" where
  "post_of (Post req) = [req]"
| "post_of _ = []"

definition posts :: "world \<Rightarrow> request list" where
  "posts w = concat (map post_of (trace w))"

text \<open>
  The inputs on which \<open>create_svg_prompt\<close> does not raise: both are
  dictionaries, each category of the style that is present is a dictionary, and
  \<^verbatim>\<open>specific_elements\<close>, when present, can be joined (a list of strings, a string or
  a dictionary).
\<close>

fun is_dict :: "pyval \<Rightarrow> bool" where
  "is_dict (PDict d) = True"
| "is_dict _ = False"

fun is_str :: "pyval \<Rightarrow> bool" where
  "is_str (PStr s) = True"
| "is_str _ = False"

definition joinable :: "pyval \<Rightarrow> bool" where
  "joinable xs =
     (case xs of
        PList vs \<Rightarrow> list_all is_str vs
      | PStr s \<Rightarrow> True
      | PDict d \<Rightarrow> True
      | _ \<Rightarrow> False)"

definition prompt_inputs_ok :: "pyval \<Rightarrow> pyval \<Rightarrow> bool" where
  "prompt_inputs_ok style_data content_data =
     (is_dict style_data \<and> is_dict content_data \<and>
      list_all (\<lambda>category. case field category style_data of None \<Rightarrow> True | Some c \<Rightarrow> is_dict c)
        category_names \<and>
      (case field ''specific_elements'' content_data of None \<Rightarrow> True | Some xs \<Rightarrow> joinable xs))"

text \<open>
  What fills a slot of the prompt: the value under the key, or the default when the
  key is missing; a missing category counts as an empty dictionary and missing
  elements as an empty list.
\<close>

definition category_of :: "string \<Rightarrow> pyval \<Rightarrow> pyval" where
  "category_of category style_data =
     (case field category style_data of Some c \<Rightarrow> c | None \<Rightarrow> PDict [])"

definition slot :: "library \<Rightarrow> pyval \<Rightarrow> string \<Rightarrow> string \<Rightarrow> string" where
  "slot lib d key dflt = (case field key d of Some v \<Rightarrow> py_str lib v | None \<Rightarrow> dflt)"

definition elements_of :: "pyval \<Rightarrow> pyval" where
  "elements_of content_data =
     (case field ''specific_elements'' content_data of Some xs \<Rightarrow> xs | None \<Rightarrow> PList [])"

text \<open>
  The stage a request belongs to, and the requests posted between two worlds.
\<close>

fun request_stage :: "request \<Rightarrow> stage" where
  "request_stage (PageRequest n img) = StyleStage"
| "request_stage (ImageRequest img) = StyleStage"
| "request_stage (ContentRequest t) = ContentStage"
| "request_stage (SvgRequest p) = SvgStage"

definition new_posts :: "world \<Rightarrow> world \<Rightarrow> request list" where
  "new_posts w w' = drop (length (posts w)) (posts w')"

section \<open>The page loop as a recursion on the pages\<close>

text \<open>
  The loop of \<open>analyze_pages\<close> written as a recursion on the list of the pages
  still to do. It is a device of the proofs: \<open>analyze_pages_as_list\<close> below shows
  that the loop over \<^verbatim>\<open>range(max_pages)\<close> computes the same.
\<close>

fun analyze_page_list ::
  "library \<Rightarrow> page list \<Rightarrow> nat \<Rightarrow> pyval list \<Rightarrow> world \<Rightarrow> (exn + pyval list) \<times> world"
  where
  "analyze_page_list lib [] page_num all_styles w = (Inr all_styles, w)"
| "analyze_page_list lib (page # rest) page_num all_styles w =
     (let w1 = emit (Ui Write (AnalyzingPage (page_num + 1))) w in
      case page of
        Inl e \<Rightarrow> (Inl e, w1)
      | Inr img_data \<Rightarrow>
          (let w2 = emit (Ui Write (PageImageSize (page_num + 1) (length img_data))) w1 in
           case analyze_page_image lib (b64encode lib img_data) (page_num + 1) w2 of
             (Inl e, w3) \<Rightarrow> (Inl e, w3)
           | (Inr page_style, w3) \<Rightarrow>
               if truthy page_style then
                 analyze_page_list lib rest (page_num + 1) (all_styles @ [page_style])
                   (emit (Ui Success (PageDone (page_num + 1))) w3)
               else
                 analyze_page_list lib rest (page_num + 1) all_styles
                   (emit (Ui Warning (PageFailed (page_num + 1))) w3)))"

section \<open>Example inputs\<close>

text \<open>
  A library whose \<^verbatim>\<open>json.loads\<close> knows two texts, replies of the API, and worlds
  that script them.
\<close>

definition table_loads :: "(string \<times> pyval) list \<Rightarrow> string \<Rightarrow> exn + pyval" where
  "table_loads table s = (case map_of table s of Some v \<Rightarrow> Inr v | None \<Rightarrow> Inl JSONDecodeError)"

definition example_style :: pyval where
  "example_style =
     PDict [(''color_palette'', PDict [(''primary'', PStr ''#112233'')]),
            (''brand_description'', PStr ''Corporate blue'')]"

definition example_content :: pyval where
  "example_content =
     PDict [(''main_topic'', PStr ''Sales''),
            (''specific_elements'', PList [PStr ''bars'', PStr ''legend''])]"

definition style_json :: string where
  "style_json = ''{'' @ quoted ''style'' @ ''}''"

definition content_json :: string where
  "content_json = ''{'' @ quoted ''content'' @ ''}''"

definition example_lib :: library where
  "example_lib =
     \<lparr>loads = table_loads [(style_json, example_style), (content_json, example_content)],
      str_of = (\<lambda>v. ''?''),
      b64encode = (\<lambda>s. ''b64:'' @ s)\<rparr>"

definition chat_response :: "pyval \<Rightarrow> response" where
  "chat_response content =
     \<lparr>status_code = 200, response_text = [],
      json_body =
        Inr (PDict [(''choices'',
               PList [PDict [(''message'', PDict [(''content'', content)])]])])\<rparr>"

definition error_response :: response where
  "error_response =
     \<lparr>status_code = 500, response_text = ''Internal Server Error'',
      json_body = Inl JSONDecodeError\<rparr>"

definition example_slots :: slots where
  "example_slots =
     \<lparr>content_type = ''diagram'', main_topic = ''Sales'', elements = ''bars, legend'',
      primary_color = ''#112233'', secondary_color = ''#5b9bd5'', accent_color = ''#f79646'',
      background_color = ''#ffffff'', text_color = ''#2f2f2f'', title_font = ''Arial Bold'',
      body_font = ''Arial Regular'', alignment = ''center'', title_position = ''top-center'',
      design_approach = ''professional''\<rparr>"

definition fenced :: "string \<Rightarrow> string" where
  "fenced s = ''```json'' @ [CHR 0x0A] @ s @ [CHR 0x0A] @ ''```''"

definition svg_reply_world :: world where
  "svg_reply_world =
     \<lparr>replies = [Responds (chat_response (PStr ''Here: <svg><rect/></svg> Done''))],
      trace = []\<rparr>"

definition failing_world :: world where
  "failing_world = \<lparr>replies = [Responds error_response], trace = []\<rparr>"

definition pipeline_world :: world where
  "pipeline_world =
     \<lparr>replies =
        [Responds (chat_response (PStr (fenced style_json))),
         Responds (chat_response (PStr content_json)),
         Responds (chat_response (PStr ''Here: <svg><rect/></svg> Done''))],
      trace = []\<rparr>"

text \<open>
  The events of the three stages of a successful run on a one-page document.
\<close>

definition style_stage_events :: "event list" where
  "style_stage_events =
     [StatusOpen StyleStage,
      Ui Info (PagesFound 1),
      Ui Write (AnalyzingPage 1),
      Ui Write (PageImageSize 1 3),
      Post (PageRequest 1 ''b64:png''),
      Ui Success (PageDone 1),
      Ui Success (StylesMerged 1)]"

definition content_stage_events :: "event list" where
  "content_stage_events =
     [StatusComplete StyleStage,
      StatusOpen ContentStage,
      Post (ContentRequest ''a sales chart'')]"

definition svg_stage_events :: "event list" where
  "svg_stage_events =
     [StatusComplete ContentStage,
      StatusOpen SvgStage,
      Post (SvgRequest (svg_prompt_text example_slots))]"

text \<open>
  A document of twelve pages, and one that differs from it after the tenth page.
\<close>

definition long_doc :: "page list" where
  "long_doc = replicate 12 (Inr ''png'')"

definition long_doc_broken_tail :: "page list" where
  "long_doc_broken_tail = replicate 10 (Inr ''png'') @ [Inl (LibraryError ''unreadable''), Inr ''other'']"

text \<open>Two page styles used to exercise the merge.\<close>

definition example_styles :: "pyval list" where
  "example_styles =
     [PDict [(''color_palette'', PDict [(''primary'', PStr []), (''text'', PStr ''#222222'')]),
             (''layout'', PNone),
             (''brand_description'', PStr [])],
      PDict [(''color_palette'', PDict [(''primary'', PStr ''#1f4e79''), (''text'', PStr ''#000000'')]),
             (''brand_description'', PStr ''Corporate blue''),
             (''has_diagrams'', PBool True)]]"

section \<open>Properties of merge_styles\<close>

text \<open>
  C9: merge_styles returns None for the empty list and, for a one-element list, that
  element itself, whatever it is and whichever fields it has.
\<close>

theorem merge_styles_singleton_identity:
  "merge_styles [] = Inr PNone \<and> (\<forall>style. merge_styles [style] = Inr style)"
  by (simp add: merge_styles_def)

lemma map_of_snoc:
  "map_of (xs @ [(k, v)]) key =
     (case map_of xs key of Some x \<Rightarrow> Some x | None \<Rightarrow> if k = key then Some v else None)"
  by (simp add: map_add_def split: option.splits)

lemma not_in_keys: "(k \<notin> fst ` set xs) = (map_of xs k = None)"
  by (simp add: map_of_eq_None_iff)

lemma map_of_merge_items:
  "distinct (map fst items) \<Longrightarrow>
   map_of (merge_items items merged) key =
     (case map_of merged key of
        Some v \<Rightarrow> Some v
      | None \<Rightarrow> (case map_of items key of
                   Some v \<Rightarrow> if truthy v then Some v else None
                 | None \<Rightarrow> None))"
proof (induction items arbitrary: merged)
  case Nil
  then show ?case by (simp split: option.splits)
next
  case (Cons kv rest)
  obtain k v where kv: "kv = (k, v)" by (cases kv)
  from Cons.prems kv have d: "distinct (map fst rest)" and nk: "map_of rest k = None"
    by (auto simp: map_of_eq_None_iff)
  show ?case
    using nk by (auto simp: kv Cons.IH[OF d] map_of_snoc not_in_keys split: option.splits)
qed

lemma first_write_Cons:
  "first_write category key (style # rest) =
     (if has_truthy_value category key style then category_value category key style
      else first_write category key rest)"
  by (simp add: first_write_def)

lemma merge_category_spec:
  "list_all (category_ok category) styles \<Longrightarrow>
   \<exists>m. merge_category category styles merged = Inr m \<and>
       (\<forall>key. map_of m key =
          (case map_of merged key of Some v \<Rightarrow> Some v
           | None \<Rightarrow> first_write category key styles))"
proof (induction styles arbitrary: merged)
  case Nil
  then show ?case by (simp add: first_write_def split: option.splits)
next
  case (Cons style rest)
  from Cons.prems have ok: "category_ok category style" and rest: "list_all (category_ok category) rest"
    by simp_all
  from ok obtain d where d: "style = PDict d"
    by (cases style) (simp_all add: category_ok_def)
  show ?case
  proof (cases "map_of d category")
    case None
    have "\<not> has_truthy_value category key style" for key
      using None by (simp add: has_truthy_value_def category_value_def field_def d)
    with Cons.IH[OF rest, of merged] None show ?thesis
      by (simp add: d dict_get_def and_then_def first_write_Cons cong: option.case_cong)
  next
    case (Some c)
    show ?thesis
    proof (cases "truthy c")
      case False
      have "\<not> has_truthy_value category key style" for key
        using False Some by (cases c) (simp_all add: has_truthy_value_def category_value_def field_def d)
      with Cons.IH[OF rest, of merged] False Some show ?thesis
        by (simp add: d dict_get_def and_then_def first_write_Cons cong: option.case_cong)
    next
      case True
      with ok Some obtain m where m: "c = PDict m" and dm: "distinct (map fst m)"
        by (cases c) (simp_all add: category_ok_def d)
      from Cons.IH[OF rest, of "merge_items m merged"]
      obtain r where r: "merge_category category rest (merge_items m merged) = Inr r"
        and rk: "\<And>key. map_of r key =
          (case map_of (merge_items m merged) key of Some v \<Rightarrow> Some v
           | None \<Rightarrow> first_write category key rest)"
        by blast
      have "map_of r key =
          (case map_of merged key of Some v \<Rightarrow> Some v
           | None \<Rightarrow> first_write category key (style # rest))" for key
        by (simp add: rk map_of_merge_items[OF dm] first_write_Cons has_truthy_value_def
              category_value_def field_def d Some m split: option.splits)
      with r True Some show ?thesis
        by (simp add: d m dict_get_def dict_items_def and_then_def)
    qed
  qed
qed


lemma page_style_dict: "is_page_style style \<Longrightarrow> \<exists>d. style = PDict d"
  by (cases style) (simp_all add: is_page_style_def category_names_def category_ok_def)

lemma any_has_diagrams_spec:
  "list_all is_page_style styles \<Longrightarrow> any_has_diagrams styles = Inr (list_ex diagrams_of styles)"
proof (induction styles)
  case Nil
  then show ?case by simp
next
  case (Cons style rest)
  then obtain d where "style = PDict d" using page_style_dict by auto
  with Cons show ?case
    by (simp add: dict_get_def and_then_def diagrams_of_def field_def split: option.splits)
qed

lemma merge_brand_spec:
  "list_all is_page_style styles \<Longrightarrow> \<not> truthy brand \<Longrightarrow>
   merge_brand styles brand =
     Inr (case find (\<lambda>style. truthy (brand_of style)) styles of
            None \<Rightarrow> brand | Some style \<Rightarrow> brand_of style)"
proof (induction styles)
  case Nil
  then show ?case by simp
next
  case (Cons style rest)
  then obtain d where "style = PDict d" using page_style_dict by auto
  with Cons show ?case
    by (simp add: dict_get_def and_then_def brand_of_def field_def split: option.splits)
qed

lemma page_style_category:
  "list_all is_page_style styles \<Longrightarrow> category \<in> set category_names \<Longrightarrow>
   list_all (category_ok category) styles"
  by (auto simp: list_all_iff is_page_style_def)


lemma merge_styles_result:
  assumes len: "2 \<le> length styles_list" and ok: "list_all is_page_style styles_list"
  shows "\<exists>cp ty la vs.
     merge_styles styles_list =
       Inr (PDict
         [(''color_palette'', PDict cp), (''typography'', PDict ty), (''layout'', PDict la),
          (''visual_style'', PDict vs), (''brand_description'', first_brand styles_list),
          (''has_diagrams'', PBool (list_ex diagrams_of styles_list))]) \<and>
     (\<forall>key. map_of cp key = first_write ''color_palette'' key styles_list) \<and>
     (\<forall>key. map_of ty key = first_write ''typography'' key styles_list) \<and>
     (\<forall>key. map_of la key = first_write ''layout'' key styles_list) \<and>
     (\<forall>key. map_of vs key = first_write ''visual_style'' key styles_list)"
proof -
  have cat: "\<exists>m. merge_category category styles_list [] = Inr m \<and>
      (\<forall>key. map_of m key = first_write category key styles_list)"
    if "category \<in> set category_names" for category
    using merge_category_spec[OF page_style_category[OF ok that], of "[]"] by simp
  obtain cp where cp: "merge_category ''color_palette'' styles_list [] = Inr cp"
      "\<forall>key. map_of cp key = first_write ''color_palette'' key styles_list"
    using cat[of "''color_palette''"] by (auto simp: category_names_def)
  obtain ty where ty: "merge_category ''typography'' styles_list [] = Inr ty"
      "\<forall>key. map_of ty key = first_write ''typography'' key styles_list"
    using cat[of "''typography''"] by (auto simp: category_names_def)
  obtain la where la: "merge_category ''layout'' styles_list [] = Inr la"
      "\<forall>key. map_of la key = first_write ''layout'' key styles_list"
    using cat[of "''layout''"] by (auto simp: category_names_def)
  obtain vs where vs: "merge_category ''visual_style'' styles_list [] = Inr vs"
      "\<forall>key. map_of vs key = first_write ''visual_style'' key styles_list"
    using cat[of "''visual_style''"] by (auto simp: category_names_def)
  have brand: "merge_brand styles_list (PStr []) = Inr (first_brand styles_list)"
    using merge_brand_spec[OF ok, of "PStr []"] by (simp add: first_brand_def)
  have "merge_styles styles_list =
       Inr (PDict
         [(''color_palette'', PDict cp), (''typography'', PDict ty), (''layout'', PDict la),
          (''visual_style'', PDict vs), (''brand_description'', first_brand styles_list),
          (''has_diagrams'', PBool (list_ex diagrams_of styles_list))])"
    using len by (auto simp: merge_styles_def and_then_def any_has_diagrams_spec[OF ok]
        cp(1) ty(1) la(1) vs(1) brand)
  with cp(2) ty(2) la(2) vs(2) show ?thesis by blast
qed

text \<open>
  C1: for a list of at least two page-style dictionaries, merge_styles is
  first-write-wins: in each of the four categories the merged value of a key is the
  value of the first style in list order whose category dictionary has a truthy value
  for it (and the key is absent when no style has one); brand_description is the first
  truthy (for a string: non-empty) brand_description in list order; has_diagrams is the
  disjunction of the styles' has_diagrams, a missing one counting as false.
\<close>

theorem merge_styles_first_write_wins:
  assumes "2 \<le> length styles_list" and "list_all is_page_style styles_list"
  shows "\<exists>merged. merge_styles styles_list = Inr merged \<and>
     (\<forall>category \<in> set category_names. \<forall>key.
        category_value category key merged = first_write category key styles_list) \<and>
     field ''brand_description'' merged = Some (first_brand styles_list) \<and>
     field ''has_diagrams'' merged = Some (PBool (list_ex diagrams_of styles_list))"
proof -
  from merge_styles_result[OF assms] obtain cp ty la vs where
    r: "merge_styles styles_list =
       Inr (PDict
         [(''color_palette'', PDict cp), (''typography'', PDict ty), (''layout'', PDict la),
          (''visual_style'', PDict vs), (''brand_description'', first_brand styles_list),
          (''has_diagrams'', PBool (list_ex diagrams_of styles_list))])"
    and k: "\<forall>key. map_of cp key = first_write ''color_palette'' key styles_list"
      "\<forall>key. map_of ty key = first_write ''typography'' key styles_list"
      "\<forall>key. map_of la key = first_write ''layout'' key styles_list"
      "\<forall>key. map_of vs key = first_write ''visual_style'' key styles_list"
    by blast
  show ?thesis
    unfolding r using k
    by (simp add: category_names_def category_value_def field_def)
qed

theorem merge_styles_first_write_wins_witness:
  "2 \<le> length example_styles \<and> list_all is_page_style example_styles \<and>
   (\<exists>merged. merge_styles example_styles = Inr merged \<and>
      category_value ''color_palette'' ''primary'' merged = Some (PStr ''#1f4e79'') \<and>
      category_value ''color_palette'' ''text'' merged = Some (PStr ''#222222'') \<and>
      category_value ''layout'' ''alignment'' merged = None \<and>
      field ''brand_description'' merged = Some (PStr ''Corporate blue'') \<and>
      field ''has_diagrams'' merged = Some (PBool True))"
proof -
  have h1: "2 \<le> length example_styles" by (simp add: example_styles_def)
  have h2: "list_all is_page_style example_styles"
    by (simp add: example_styles_def is_page_style_def category_names_def category_ok_def)
  have e: "first_write ''color_palette'' ''primary'' example_styles = Some (PStr ''#1f4e79'')"
    "first_write ''color_palette'' ''text'' example_styles = Some (PStr ''#222222'')"
    "first_write ''layout'' ''alignment'' example_styles = None"
    "first_brand example_styles = PStr ''Corporate blue''"
    "list_ex diagrams_of example_styles"
    by (simp_all add: example_styles_def first_write_def has_truthy_value_def
        category_value_def field_def first_brand_def brand_of_def diagrams_of_def)
  from merge_styles_first_write_wins[OF h1 h2] obtain merged where
    m: "merge_styles example_styles = Inr merged"
    and c: "\<forall>category \<in> set category_names. \<forall>key.
        category_value category key merged = first_write category key example_styles"
    and b: "field ''brand_description'' merged = Some (first_brand example_styles)"
    and d: "field ''has_diagrams'' merged = Some (PBool (list_ex diagrams_of example_styles))"
    by blast
  from c have "category_value ''color_palette'' ''primary'' merged = Some (PStr ''#1f4e79'')"
    "category_value ''color_palette'' ''text'' merged = Some (PStr ''#222222'')"
    "category_value ''layout'' ''alignment'' merged = None"
    by (simp_all add: category_names_def e)
  with h1 h2 m b d e show ?thesis by simp
qed

text \<open>
  C7, as amended: for a list of at least two page-style dictionaries, the record that
  merge_styles returns has the four nested dictionaries color_palette, typography,
  layout and visual_style and the field brand_description (and has_diagrams).
\<close>

theorem merge_styles_has_fields:
  assumes "2 \<le> length styles_list" and "list_all is_page_style styles_list"
  shows "\<exists>cp ty la vs bd hd.
     merge_styles styles_list =
       Inr (PDict
         [(''color_palette'', PDict cp), (''typography'', PDict ty), (''layout'', PDict la),
          (''visual_style'', PDict vs), (''brand_description'', bd),
          (''has_diagrams'', PBool hd)])"
  using merge_styles_result[OF assms] by blast

theorem merge_styles_has_fields_witness:
  "2 \<le> length example_styles \<and> list_all is_page_style example_styles \<and>
   (\<exists>cp ty la vs bd hd.
     merge_styles example_styles =
       Inr (PDict
         [(''color_palette'', PDict cp), (''typography'', PDict ty), (''layout'', PDict la),
          (''visual_style'', PDict vs), (''brand_description'', bd),
          (''has_diagrams'', PBool hd)]))"
proof -
  have h1: "2 \<le> length example_styles" by (simp add: example_styles_def)
  have h2: "list_all is_page_style example_styles"
    by (simp add: example_styles_def is_page_style_def category_names_def category_ok_def)
  from h1 h2 merge_styles_has_fields[OF h1 h2] show ?thesis by blast
qed

text \<open>
  C7 as stated fails on a one-element list: the element comes back as it is, here
  without a color_palette.
\<close>

theorem merge_styles_has_fields_counterexample:
  "merge_styles [PDict [(''brand_description'', PStr ''Plain'')]] =
     Inr (PDict [(''brand_description'', PStr ''Plain'')]) \<and>
   field ''color_palette'' (PDict [(''brand_description'', PStr ''Plain'')]) = None"
  by (simp add: merge_styles_def field_def)

section \<open>Facts about the operations and the examples\<close>

lemma and_then_Inr: "and_then (Inr v) f = f v"
  by (simp add: and_then_def)

lemma post_Responds:
  "replies w = Responds response # rest \<Longrightarrow>
   post req w = (Inr response, emit (Post req) (w\<lparr>replies := rest\<rparr>))"
  by (simp add: post_def)

lemma emit_emit_replies:
  "emit e2 (emit e1 (w\<lparr>replies := rest\<rparr>)) = w\<lparr>replies := rest, trace := trace w @ [e1, e2]\<rparr>"
  by (simp add: emit_def)

lemma example_prompt:
  "create_svg_prompt example_lib example_style example_content =
     Inr (svg_prompt_text example_slots)"
  by (simp add: create_svg_prompt_def example_style_def example_content_def example_slots_def
      dict_get_def and_then_def str_join_def py_str_def)

lemma chat_content:
  "and_then (json_body (chat_response content)) message_content = Inr content"
  by (simp add: chat_response_def message_content_def and_then_def getitem_key_def
      getitem_index_def)

lemma chat_status: "status_code (chat_response content) = 200"
  by (simp add: chat_response_def)

lemma chat_clean:
  "and_then (and_then (json_body (chat_response content)) message_content) clean_content
     = clean_content content"
  by (simp add: chat_content and_then_Inr)

lemma b64_example: "b64encode example_lib s = ''b64:'' @ s"
  by (simp add: example_lib_def)

lemma loads_example:
  "loads example_lib style_json = Inr example_style"
  "loads example_lib content_json = Inr example_content"
  by (simp_all add: example_lib_def table_loads_def style_json_def content_json_def quoted_def)

lemma clean_fenced_style: "clean_content (PStr (fenced style_json)) = Inr style_json"
  by (simp add: clean_content_def fenced_def style_json_def quoted_def strip_def py_whitespace_def)

lemma clean_content_json: "clean_content (PStr content_json) = Inr content_json"
  by (simp add: clean_content_def content_json_def quoted_def strip_def py_whitespace_def)

lemma truthy_examples: "truthy example_style" "truthy example_content"
  by (simp_all add: example_style_def example_content_def)

section \<open>HTTP failures\<close>

text \<open>
  C5: when the reply to the POST is a response whose status code is not 200, each
  of analyze_page_image, analyze_ppt_style_single_image, process_user_request and
  generate_svg issues exactly one POST (one reply is consumed, one Post event is
  added), reports the failure once (one warning or error follows the POST) and returns
  None, or (None, None) for generate_svg; nothing is retried. For
  analyze_ppt_style_single_image the image must have been read, and for generate_svg
  the prompt must have been built, since both happen before the POST.
\<close>

theorem non_200_reported_once:
  assumes "replies w = Responds response # rest" and "status_code response \<noteq> 200"
  shows "analyze_page_image lib base64_image page_num w =
           (Inr PNone,
            w\<lparr>replies := rest,
              trace := trace w @
                [Post (PageRequest page_num base64_image),
                 Ui Warning (PageHttpError page_num (status_code response) (response_text response))]\<rparr>)
       \<and> (\<forall>data. read_image image_data = Inr data \<longrightarrow>
            analyze_ppt_style_single_image lib image_data w =
              (Inr PNone,
               w\<lparr>replies := rest,
                 trace := trace w @
                   [Post (ImageRequest (b64encode lib data)),
                    Ui Error (StyleHttpError (status_code response))]\<rparr>))
       \<and> process_user_request lib user_input w =
           (Inr PNone,
            w\<lparr>replies := rest,
              trace := trace w @
                [Post (ContentRequest user_input),
                 Ui Error (ContentHttpError (status_code response))]\<rparr>)
       \<and> (\<forall>prompt. create_svg_prompt lib style_data content_data = Inr prompt \<longrightarrow>
            generate_svg lib style_data content_data w =
              (Inr (PNone, PNone),
               w\<lparr>replies := rest,
                 trace := trace w @
                   [Post (SvgRequest prompt), Ui Error (SvgHttpError (status_code response))]\<rparr>))"
  using assms
  by (simp add: analyze_page_image_def analyze_page_image_try_def
      analyze_ppt_style_single_image_def analyze_ppt_style_single_image_try_def
      process_user_request_def process_user_request_try_def
      generate_svg_def generate_svg_try_def post_Responds emit_emit_replies)

text \<open>
  The four operations on a world whose only reply has status 500.
\<close>

theorem non_200_reported_once_witness:
  "replies failing_world = [Responds error_response]
 \<and> status_code error_response \<noteq> 200
 \<and> analyze_page_image example_lib ''img'' 1 failing_world =
      (Inr PNone,
       \<lparr>replies = [],
        trace = [Post (PageRequest 1 ''img''),
                 Ui Warning (PageHttpError 1 500 ''Internal Server Error'')]\<rparr>)
 \<and> analyze_ppt_style_single_image example_lib (Bytes ''img'') failing_world =
      (Inr PNone,
       \<lparr>replies = [],
        trace = [Post (ImageRequest ''b64:img''), Ui Error (StyleHttpError 500)]\<rparr>)
 \<and> process_user_request example_lib ''a sales chart'' failing_world =
      (Inr PNone,
       \<lparr>replies = [],
        trace = [Post (ContentRequest ''a sales chart''), Ui Error (ContentHttpError 500)]\<rparr>)
 \<and> generate_svg example_lib example_style example_content failing_world =
      (Inr (PNone, PNone),
       \<lparr>replies = [],
        trace = [Post (SvgRequest (svg_prompt_text example_slots)),
                 Ui Error (SvgHttpError 500)]\<rparr>)"
proof -
  have r: "replies failing_world = Responds error_response # []"
    by (simp add: failing_world_def)
  have s: "status_code error_response \<noteq> 200" by (simp add: error_response_def)
  have d: "read_image (Bytes ''img'') = Inr ''img''" by (simp add: read_image_def)
  from non_200_reported_once[OF r s, of example_lib "''img''" 1 "Bytes ''img''"
      "''a sales chart''" example_style example_content] d example_prompt r s
  show ?thesis
    by (simp add: failing_world_def error_response_def example_lib_def)
qed

section \<open>The two operations that parse a reply return a value\<close>

lemma analyze_page_image_caught:
  "\<exists>r w'. analyze_page_image lib base64_image page_num w = (Inr r, w') \<and>
     (r = PNone \<or> parsed_reply lib w r)"
  by (auto simp: analyze_page_image_def analyze_page_image_try_def post_def parsed_reply_def
      split: prod.splits sum.splits list.splits reply.splits exn.splits if_splits)


section \<open>Extraction of the SVG\<close>

text \<open>
  C2 fails on the code: the response \<^verbatim>\<open><svg><rect/>\<close> has no \<^verbatim>\<open></svg>\<close>, yet
  generate_svg reports nothing and returns the first five characters of the response
  with the prompt. \<^verbatim>\<open>find\<close> gives -1 for the missing marker, 6 is added, and the
  test \<^verbatim>\<open>svg_end != -1\<close> compares 5 with -1.
\<close>

theorem generate_svg_truncates_without_end_marker:
  "generate_svg example_lib example_style example_content
     \<lparr>replies = [Responds (chat_response (PStr ''<svg><rect/>''))], trace = []\<rparr>
   = (Inr (PStr ''<svg>'', PStr (svg_prompt_text example_slots)),
      \<lparr>replies = [], trace = [Post (SvgRequest (svg_prompt_text example_slots))]\<rparr>)"
  by (simp add: generate_svg_def generate_svg_try_def example_prompt post_def emit_def
      chat_content str_find_def py_slice_def)
     (simp add: chat_response_def)

lemma occurs_at_Cons_Suc: "occurs_at sub (c # cs) (Suc i) = occurs_at sub cs i"
  by (simp add: occurs_at_def)

lemma occurs_at_0: "occurs_at sub s 0 = prefix sub s"
  by (simp add: occurs_at_def)

lemma first_occurrence_Cons_Suc:
  "\<not> prefix sub (c # cs) \<Longrightarrow>
   first_occurrence sub (c # cs) (Suc i) = first_occurrence sub cs i"
proof -
  assume np: "\<not> prefix sub (c # cs)"
  have "(\<forall>k<Suc i. \<not> occurs_at sub (c # cs) k) = (\<forall>k<i. \<not> occurs_at sub cs k)"
  proof
    assume a: "\<forall>k<Suc i. \<not> occurs_at sub (c # cs) k"
    show "\<forall>k<i. \<not> occurs_at sub cs k"
    proof (intro allI impI)
      fix k assume "k < i"
      then have "\<not> occurs_at sub (c # cs) (Suc k)" using a by simp
      then show "\<not> occurs_at sub cs k" by (simp add: occurs_at_Cons_Suc)
    qed
  next
    assume a: "\<forall>k<i. \<not> occurs_at sub cs k"
    show "\<forall>k<Suc i. \<not> occurs_at sub (c # cs) k"
    proof (intro allI impI)
      fix k assume k: "k < Suc i"
      show "\<not> occurs_at sub (c # cs) k"
      proof (cases k)
        case 0
        then show ?thesis using np by (simp add: occurs_at_0)
      next
        case (Suc k')
        then show ?thesis using a k by (simp add: occurs_at_Cons_Suc)
      qed
    qed
  qed
  then show ?thesis by (simp add: first_occurrence_def occurs_at_Cons_Suc)
qed

lemma first_occurrence_0: "first_occurrence sub s 0 = prefix sub s"
  by (simp add: first_occurrence_def occurs_at_0)

lemma first_occurrence_prefix: "prefix sub s \<Longrightarrow> first_occurrence sub s i = (i = 0)"
proof (cases i)
  case 0
  assume "prefix sub s"
  then show ?thesis using 0 by (simp add: first_occurrence_0)
next
  case (Suc k)
  assume "prefix sub s"
  then have "occurs_at sub s 0" by (simp add: occurs_at_0)
  then show ?thesis using Suc by (auto simp: first_occurrence_def)
qed

lemma first_index_first_occurrence:
  "(first_index sub s = Some i) = first_occurrence sub s i"
proof (induction s arbitrary: i)
  case Nil
  show ?case by (auto simp: first_occurrence_def occurs_at_def)
next
  case (Cons c cs)
  show ?case
  proof (cases "prefix sub (c # cs)")
    case True
    then show ?thesis by (auto simp: first_occurrence_prefix)
  next
    case False
    show ?thesis
    proof (cases i)
      case 0
      then show ?thesis using False by (simp add: first_occurrence_0)
    next
      case (Suc k)
      then show ?thesis using False Cons.IH[of k]
        by (auto simp: first_occurrence_Cons_Suc)
    qed
  qed
qed

lemma occurs_at_length: "occurs_at sub s i \<Longrightarrow> i + length sub \<le> length s"
  by (auto simp: occurs_at_def prefix_def dest!: arg_cong[where f = length])

lemma py_slice_nat:
  "i \<le> length s \<Longrightarrow> k \<le> length s \<Longrightarrow> py_slice s (int i) (int k) = take (k - i) (drop i s)"
  by (simp add: py_slice_def Let_def min_def nat_diff_distrib')

lemma drop_split:
  assumes "i \<le> k"
  shows "drop i s = take (k - i) (drop i s) @ drop k s"
proof -
  have "drop i s = take (k - i) (drop i s) @ drop (k - i) (drop i s)"
    by (rule append_take_drop_id[symmetric])
  also have "drop (k - i) (drop i s) = drop k s" using assms by simp
  finally show ?thesis .
qed

lemma slice_decompose:
  assumes "i \<le> k"
  shows "s = take i s @ take (k - i) (drop i s) @ drop k s"
proof -
  have "s = take i s @ drop i s" by simp
  also have "drop i s = take (k - i) (drop i s) @ drop k s" by (rule drop_split[OF assms])
  finally show ?thesis .
qed

lemma prefix_take_long:
  "prefix sub xs \<Longrightarrow> length sub \<le> n \<Longrightarrow> prefix sub (take n xs)"
  by (auto simp: prefix_def)

lemma slice_suffix:
  assumes ij: "i \<le> j" and jl: "j \<le> length s" and pre: "prefix sub (drop j s)"
  shows "suffix sub (take (j + length sub - i) (drop i s))"
proof -
  from pre obtain rest where p: "drop j s = sub @ rest" by (auto simp: prefix_def)
  define A where "A = take (j - i) (drop i s)"
  have lA: "length A = j - i" using ij jl by (simp add: A_def)
  have d: "drop i s = A @ sub @ rest" using drop_split[OF ij, of s] p by (simp add: A_def)
  have "j + length sub - i = length A + length sub" using ij lA by simp
  then have "take (j + length sub - i) (drop i s) = A @ sub" by (simp add: d)
  then show ?thesis by (simp add: suffix_def)
qed

text \<open>
  C3, as amended: when the reply has status 200 and its text content contains both
  markers, the first \<^verbatim>\<open><svg\<close> at index \<open>i\<close> and the first \<^verbatim>\<open></svg>\<close> at index \<open>j\<close>,
  and the first \<^verbatim>\<open><svg\<close> comes before the first \<^verbatim>\<open></svg>\<close> (\<open>i < j\<close>), generate_svg
  returns, with the prompt, exactly the part of the content that starts with that
  \<^verbatim>\<open><svg\<close> at index \<open>i\<close> and ends with that \<^verbatim>\<open></svg>\<close> at index \<open>j + 6\<close>, whatever
  text comes before and after it.
\<close>

theorem generate_svg_returns_markup:
  assumes prompt: "create_svg_prompt lib style_data content_data = Inr prompt"
    and reply: "replies w = Responds response # rest"
    and ok: "status_code response = 200"
    and content: "and_then (json_body response) message_content = Inr (PStr svg_content)"
    and start: "first_occurrence ''<svg'' svg_content i"
    and stop: "first_occurrence ''</svg>'' svg_content j"
    and ij: "i < j"
  shows "generate_svg lib style_data content_data w =
           (Inr (PStr (take (j + 6 - i) (drop i svg_content)), PStr prompt),
            emit (Post (SvgRequest prompt)) (w\<lparr>replies := rest\<rparr>))
       \<and> svg_content = take i svg_content @ take (j + 6 - i) (drop i svg_content)
                            @ drop (j + 6) svg_content
       \<and> length (take i svg_content) = i
       \<and> prefix ''<svg'' (take (j + 6 - i) (drop i svg_content))
       \<and> suffix ''</svg>'' (take (j + 6 - i) (drop i svg_content))"
proof -
  from start have oi: "occurs_at ''<svg'' svg_content i" by (simp add: first_occurrence_def)
  from stop have oj: "occurs_at ''</svg>'' svg_content j" by (simp add: first_occurrence_def)
  have il: "i \<le> length svg_content" using oi by (simp add: occurs_at_def)
  have jl: "j + 6 \<le> length svg_content" using occurs_at_length[OF oj] by simp
  have fi: "str_find svg_content ''<svg'' = int i"
    using start by (simp add: str_find_def first_index_first_occurrence[symmetric])
  have fj: "str_find svg_content ''</svg>'' = int j"
    using stop by (simp add: str_find_def first_index_first_occurrence[symmetric])
  have sl: "py_slice svg_content (int i) (int j + 6) = take (j + 6 - i) (drop i svg_content)"
    using py_slice_nat[OF il jl] by simp
  have run: "generate_svg lib style_data content_data w =
           (Inr (PStr (take (j + 6 - i) (drop i svg_content)), PStr prompt),
            emit (Post (SvgRequest prompt)) (w\<lparr>replies := rest\<rparr>))"
    using prompt ok content
    by (simp add: generate_svg_def generate_svg_try_def post_Responds[OF reply] fi fj sl)
  have a: "svg_content = take i svg_content @ take (j + 6 - i) (drop i svg_content)
                            @ drop (j + 6) svg_content"
    using slice_decompose[of i "j + 6" svg_content] ij by simp
  have b: "length (take i svg_content) = i" using il by simp
  have c: "prefix ''<svg'' (take (j + 6 - i) (drop i svg_content))"
    using oi ij by (intro prefix_take_long) (simp_all add: occurs_at_def)
  have len6: "j + length ''</svg>'' - i = j + 6 - i" by simp
  have "suffix ''</svg>'' (take (j + length ''</svg>'' - i) (drop i svg_content))"
    by (rule slice_suffix) (use ij jl oj in \<open>simp_all add: occurs_at_def\<close>)
  then have d: "suffix ''</svg>'' (take (j + 6 - i) (drop i svg_content))"
    by (simp only: len6)
  from run a b c d show ?thesis by blast
qed

text \<open>
  A reply with text before and after the markup.
\<close>

theorem generate_svg_returns_markup_witness:
  "create_svg_prompt example_lib example_style example_content
     = Inr (svg_prompt_text example_slots)
 \<and> replies svg_reply_world
     = [Responds (chat_response (PStr ''Here: <svg><rect/></svg> Done''))]
 \<and> status_code (chat_response (PStr ''Here: <svg><rect/></svg> Done'')) = 200
 \<and> first_occurrence ''<svg'' ''Here: <svg><rect/></svg> Done'' 6
 \<and> first_occurrence ''</svg>'' ''Here: <svg><rect/></svg> Done'' 18
 \<and> (6::nat) < 18
 \<and> generate_svg example_lib example_style example_content svg_reply_world
     = (Inr (PStr ''<svg><rect/></svg>'', PStr (svg_prompt_text example_slots)),
        \<lparr>replies = [], trace = [Post (SvgRequest (svg_prompt_text example_slots))]\<rparr>)"
proof -
  have r: "replies svg_reply_world
     = Responds (chat_response (PStr ''Here: <svg><rect/></svg> Done'')) # []"
    by (simp add: svg_reply_world_def)
  have s: "status_code (chat_response (PStr ''Here: <svg><rect/></svg> Done'')) = 200"
    by (simp add: chat_response_def)
  have i: "first_occurrence ''<svg'' ''Here: <svg><rect/></svg> Done'' 6"
    by (simp add: first_index_first_occurrence[symmetric])
  have j: "first_occurrence ''</svg>'' ''Here: <svg><rect/></svg> Done'' 18"
    by (simp add: first_index_first_occurrence[symmetric])
  have o: "(6::nat) < 18" by simp
  from generate_svg_returns_markup[OF example_prompt r s chat_content i j o]
  have "generate_svg example_lib example_style example_content svg_reply_world
     = (Inr (PStr ''<svg><rect/></svg>'', PStr (svg_prompt_text example_slots)),
        \<lparr>replies = [], trace = [Post (SvgRequest (svg_prompt_text example_slots))]\<rparr>)"
    by (simp add: emit_def svg_reply_world_def)
  with example_prompt r s i j show ?thesis by simp
qed

text \<open>
  C3 as stated fails when a \<^verbatim>\<open></svg>\<close> comes before the first \<^verbatim>\<open><svg\<close>: the content
  \<^verbatim>\<open></svg> junk <svg><rect/></svg>\<close> contains both markers, the first \<^verbatim>\<open><svg\<close> at
  index 12 and the first \<^verbatim>\<open></svg>\<close> at index 0, and generate_svg returns the empty
  string, not a text that starts with \<^verbatim>\<open><svg\<close>.
\<close>

theorem generate_svg_returns_markup_counterexample:
  "first_occurrence ''<svg'' ''</svg> junk <svg><rect/></svg>'' 12
 \<and> first_occurrence ''</svg>'' ''</svg> junk <svg><rect/></svg>'' 0
 \<and> generate_svg example_lib example_style example_content
       \<lparr>replies = [Responds (chat_response (PStr ''</svg> junk <svg><rect/></svg>''))],
        trace = []\<rparr>
     = (Inr (PStr [], PStr (svg_prompt_text example_slots)),
        \<lparr>replies = [], trace = [Post (SvgRequest (svg_prompt_text example_slots))]\<rparr>)"
proof -
  have i: "first_occurrence ''<svg'' ''</svg> junk <svg><rect/></svg>'' 12"
    by (simp add: first_index_first_occurrence[symmetric])
  have j: "first_occurrence ''</svg>'' ''</svg> junk <svg><rect/></svg>'' 0"
    by (simp add: first_index_first_occurrence[symmetric])
  have "generate_svg example_lib example_style example_content
       \<lparr>replies = [Responds (chat_response (PStr ''</svg> junk <svg><rect/></svg>''))],
        trace = []\<rparr>
     = (Inr (PStr [], PStr (svg_prompt_text example_slots)),
        \<lparr>replies = [], trace = [Post (SvgRequest (svg_prompt_text example_slots))]\<rparr>)"
    by (simp add: generate_svg_def generate_svg_try_def example_prompt post_def emit_def
        chat_content chat_status str_find_def py_slice_def)
  with i j show ?thesis by simp
qed

section \<open>The pages of the document\<close>

lemma posts_emit_Ui [simp]: "posts (emit (Ui l m) w) = posts w"
  by (simp add: posts_def emit_def)

lemma posts_emit_Post [simp]: "posts (emit (Post req) w) = posts w @ [req]"
  by (simp add: posts_def emit_def)

lemma posts_replies [simp]: "posts (w\<lparr>replies := rs\<rparr>) = posts w"
  by (simp add: posts_def)

lemma post_posts: "post req w = (r, w') \<Longrightarrow> posts w' = posts w @ [req]"
  by (auto simp: post_def split: list.splits)

lemma analyze_page_image_posts:
  "analyze_page_image lib base64_image page_num w = (r, w') \<Longrightarrow>
   posts w' = posts w @ [PageRequest page_num base64_image]"
  by (auto simp: analyze_page_image_def analyze_page_image_try_def
      split: prod.splits sum.splits exn.splits if_splits dest: post_posts)

lemma analyze_pages_as_list:
  "max_pages \<le> length doc \<Longrightarrow>
   analyze_pages lib doc max_pages page_num all_styles w =
     analyze_page_list lib (drop page_num (take max_pages doc)) page_num all_styles w"
proof (induction lib doc max_pages page_num all_styles w rule: analyze_pages.induct)
  case (1 lib doc max_pages page_num all_styles w)
  show ?case
  proof (cases "page_num < max_pages")
    case False
    then show ?thesis by (simp add: analyze_pages.simps[of lib doc max_pages page_num])
  next
    case True
    with "1.prems" have lt: "page_num < length doc" by simp
    have d: "drop page_num (take max_pages doc) =
        doc ! page_num # drop (Suc page_num) (take max_pages doc)"
      using True "1.prems" by (simp add: Cons_nth_drop_Suc[symmetric])
    show ?thesis
      unfolding analyze_pages.simps[of lib doc max_pages page_num all_styles w] d
      using True lt "1.IH" "1.prems"
      by (auto simp: Let_def render_page_def split: sum.splits prod.splits)
  qed
qed

lemma analyze_page_list_posts:
  "analyze_page_list lib pages page_num all_styles w = (r, w') \<Longrightarrow>
   \<exists>imgs. length imgs \<le> length pages \<and> map Inr imgs = take (length imgs) pages \<and>
     posts w' = posts w @
       map (\<lambda>(i, img). PageRequest (Suc i) (b64encode lib img)) (enumerate page_num imgs)"
proof (induction pages arbitrary: page_num all_styles w)
  case Nil
  then show ?case by simp
next
  case (Cons page rest)
  show ?case
  proof (cases page)
    case (Inl e)
    with Cons.prems have "posts w' = posts w" by (auto simp: Let_def)
    then have "length ([]::string list) \<le> length (page # rest) \<and>
        map Inr ([]::string list) = take (length ([]::string list)) (page # rest) \<and>
        posts w' = posts w @
          map (\<lambda>(i, img). PageRequest (Suc i) (b64encode lib img)) (enumerate page_num [])"
      by simp
    then show ?thesis by blast
  next
    case (Inr img)
    define w2 where "w2 = emit (Ui Write (PageImageSize (page_num + 1) (length img)))
        (emit (Ui Write (AnalyzingPage (page_num + 1))) w)"
    obtain page_style w3 where
      api: "analyze_page_image lib (b64encode lib img) (page_num + 1) w2 = (Inr page_style, w3)"
      using analyze_page_image_caught[of lib "b64encode lib img" "page_num + 1" w2] by blast
    have p3: "posts w3 = posts w @ [PageRequest (Suc page_num) (b64encode lib img)]"
      using analyze_page_image_posts[OF api] by (simp add: w2_def)
    from Cons.prems Inr api obtain styles' w4 where
      rec: "analyze_page_list lib rest (Suc page_num) styles' w4 = (r, w')"
      and p4: "posts w4 = posts w3"
      by (cases "truthy page_style") (auto simp: Let_def w2_def)
    from Cons.IH[OF rec] obtain imgs where
      i1: "length imgs \<le> length rest" and i2: "map Inr imgs = take (length imgs) rest"
      and i3: "posts w' = posts w4 @
        map (\<lambda>(i, img). PageRequest (Suc i) (b64encode lib img)) (enumerate (Suc page_num) imgs)"
      by blast
    have "length (img # imgs) \<le> length (page # rest) \<and>
        map Inr (img # imgs) = take (length (img # imgs)) (page # rest) \<and>
        posts w' = posts w @
          map (\<lambda>(i, img). PageRequest (Suc i) (b64encode lib img)) (enumerate page_num (img # imgs))"
      using i1 i2 i3 p3 p4 Inr by simp
    then show ?thesis by blast
  qed
qed

lemma analyze_pdf_posts:
  assumes "analyze_pdf_with_gpt4v lib (Inr doc) w = (r, w')"
  shows "\<exists>imgs. length imgs \<le> min 10 (length doc) \<and> map Inr imgs = take (length imgs) doc \<and>
     posts w' = posts w @
       map (\<lambda>(i, img). PageRequest (Suc i) (b64encode lib img)) (enumerate 0 imgs)"
proof -
  define w1 where "w1 = emit (Ui Info (PagesFound (length doc))) w"
  obtain res w2 where
    run: "analyze_page_list lib (take (min 10 (length doc)) doc) 0 [] w1 = (res, w2)"
    by (cases "analyze_page_list lib (take (min 10 (length doc)) doc) 0 [] w1")
  from analyze_page_list_posts[OF run] obtain imgs where
    i1: "length imgs \<le> length (take (min 10 (length doc)) doc)"
    and i2: "map Inr imgs = take (length imgs) (take (min 10 (length doc)) doc)"
    and i3: "posts w2 = posts w1 @
       map (\<lambda>(i, img). PageRequest (Suc i) (b64encode lib img)) (enumerate 0 imgs)"
    by blast
  have p: "posts w' = posts w2"
    using assms run
    by (auto simp: analyze_pdf_with_gpt4v_def analyze_pdf_with_gpt4v_try_def Let_def w1_def
        analyze_pages_as_list split: sum.splits prod.splits if_splits)
  have l: "length imgs \<le> min 10 (length doc)" using i1 by simp
  have "take (length imgs) (take (min 10 (length doc)) doc) = take (length imgs) doc"
    using l by (simp add: min_def)
  with i2 i3 p l show ?thesis by (auto simp: w1_def)
qed

lemma analyze_pdf_first_ten:
  assumes "length doc' = length doc" and "take 10 doc' = take 10 doc"
  shows "analyze_pdf_with_gpt4v lib (Inr doc') w = analyze_pdf_with_gpt4v lib (Inr doc) w"
proof -
  have "take (min 10 (length doc)) doc' = take (min 10 (length doc)) (take 10 doc')"
    by (simp add: min_def)
  also have "\<dots> = take (min 10 (length doc)) (take 10 doc)" using assms(2) by simp
  also have "\<dots> = take (min 10 (length doc)) doc" by (simp add: min_def)
  finally have "take (min 10 (length doc)) doc' = take (min 10 (length doc)) doc" .
  then show ?thesis
    using assms(1)
    by (simp add: analyze_pdf_with_gpt4v_def analyze_pdf_with_gpt4v_try_def Let_def
        analyze_pages_as_list)
qed

text \<open>
  C8: analyze_pdf_with_gpt4v sends at most min(10, page_count) pages to the API:
  its POSTs are for an initial part of the document of at most that length, page
  \<open>i\<close> (from 0) as page number \<open>i + 1\<close> with its own image. Pages after the tenth
  are never rendered or sent, and the merged style does not depend on them: a
  document of the same length with the same first ten pages gives the same result and
  the same events, whatever its later pages are (even pages that cannot be rendered).
\<close>

theorem analyze_pdf_at_most_ten_pages:
  assumes "analyze_pdf_with_gpt4v lib (Inr doc) w = (result, w')"
  shows "(\<exists>imgs. length imgs \<le> min 10 (length doc) \<and> map Inr imgs = take (length imgs) doc \<and>
            posts w' = posts w @
              map (\<lambda>(i, img). PageRequest (Suc i) (b64encode lib img)) (enumerate 0 imgs))
       \<and> (\<forall>doc'. length doc' = length doc \<and> take 10 doc' = take 10 doc \<longrightarrow>
            analyze_pdf_with_gpt4v lib (Inr doc') w = (result, w'))"
  using analyze_pdf_posts[OF assms] analyze_pdf_first_ten[of _ doc lib w] assms by simp

text \<open>
  Twelve pages, and the same with an eleventh page that cannot be rendered.
\<close>

theorem analyze_pdf_at_most_ten_pages_witness:
  "length long_doc_broken_tail = length long_doc
 \<and> take 10 long_doc_broken_tail = take 10 long_doc
 \<and> length (posts (snd (analyze_pdf_with_gpt4v example_lib (Inr long_doc) pipeline_world)))
       \<le> length (posts pipeline_world) + 10
 \<and> analyze_pdf_with_gpt4v example_lib (Inr long_doc_broken_tail) pipeline_world
       = analyze_pdf_with_gpt4v example_lib (Inr long_doc) pipeline_world"
proof -
  have l: "length long_doc_broken_tail = length long_doc"
    by (simp add: long_doc_def long_doc_broken_tail_def)
  have t: "take 10 long_doc_broken_tail = take 10 long_doc"
    by (simp add: long_doc_def long_doc_broken_tail_def)
  have run: "analyze_pdf_with_gpt4v example_lib (Inr long_doc) pipeline_world
      = (fst (analyze_pdf_with_gpt4v example_lib (Inr long_doc) pipeline_world),
         snd (analyze_pdf_with_gpt4v example_lib (Inr long_doc) pipeline_world))"
    by simp
  note inst = analyze_pdf_at_most_ten_pages[OF run]
  from inst have "\<exists>imgs. length imgs \<le> min 10 (length long_doc) \<and>
       map Inr imgs = take (length imgs) long_doc \<and>
       posts (snd (analyze_pdf_with_gpt4v example_lib (Inr long_doc) pipeline_world)) =
         posts pipeline_world @
           map (\<lambda>(i, img). PageRequest (Suc i) (b64encode example_lib img)) (enumerate 0 imgs)"
    by (rule conjunct1)
  then obtain imgs where
    n: "length imgs \<le> min 10 (length long_doc)" and
    ps: "posts (snd (analyze_pdf_with_gpt4v example_lib (Inr long_doc) pipeline_world)) =
       posts pipeline_world @
         map (\<lambda>(i, img). PageRequest (Suc i) (b64encode example_lib img)) (enumerate 0 imgs)"
    by blast
  have p: "length (posts (snd (analyze_pdf_with_gpt4v example_lib (Inr long_doc) pipeline_world)))
       \<le> length (posts pipeline_world) + 10"
    unfolding ps using n by simp
  from inst have "\<forall>doc'. length doc' = length long_doc \<and> take 10 doc' = take 10 long_doc \<longrightarrow>
      analyze_pdf_with_gpt4v example_lib (Inr doc') pipeline_world
        = (fst (analyze_pdf_with_gpt4v example_lib (Inr long_doc) pipeline_world),
           snd (analyze_pdf_with_gpt4v example_lib (Inr long_doc) pipeline_world))"
    by (rule conjunct2)
  with l t have
    "analyze_pdf_with_gpt4v example_lib (Inr long_doc_broken_tail) pipeline_world
        = (fst (analyze_pdf_with_gpt4v example_lib (Inr long_doc) pipeline_world),
           snd (analyze_pdf_with_gpt4v example_lib (Inr long_doc) pipeline_world))"
    by blast
  then have e: "analyze_pdf_with_gpt4v example_lib (Inr long_doc_broken_tail) pipeline_world
       = analyze_pdf_with_gpt4v example_lib (Inr long_doc) pipeline_world"
    by simp
  from l t p e show ?thesis by blast
qed

section \<open>Failures are caught inside the try\<close>


lemma page_styles_0 [simp]: "page_styles lib 0 rs = []"
  by (simp add: page_styles_def)

lemma page_styles_Nil [simp]: "page_styles lib n [] = []"
  by (simp add: page_styles_def)


lemma replies_emit [simp]: "replies (emit e w) = replies w"
  by (simp add: emit_def)












section \<open>The pipeline\<close>

lemma posts_emit_status [simp]:
  "posts (emit (StatusOpen s) w) = posts w"
  "posts (emit (StatusError s) w) = posts w"
  "posts (emit (StatusComplete s) w) = posts w"
  by (simp_all add: posts_def emit_def)

lemma process_user_request_posts:
  "process_user_request lib user_input w = (r, w') \<Longrightarrow>
   posts w' = posts w @ [ContentRequest user_input]"
  by (auto simp: process_user_request_def process_user_request_try_def
      split: prod.splits sum.splits if_splits dest: post_posts)

lemma generate_svg_posts:
  "generate_svg lib style_data content_data w = (r, w') \<Longrightarrow>
   posts w' = posts w \<or> (\<exists>prompt. posts w' = posts w @ [SvgRequest prompt])"
  by (auto simp: generate_svg_def generate_svg_try_def Let_def
      split: prod.splits sum.splits if_splits pyval.splits dest: post_posts)

lemma analyze_pdf_page_posts:
  assumes "analyze_pdf_with_gpt4v lib pdf_file w = (r, w')"
  shows "\<exists>n\<le>10. \<exists>ps. posts w' = posts w @ ps \<and> map request_stage ps = replicate n StyleStage"
proof (cases pdf_file)
  case (Inl e)
  with assms have "posts w' = posts w @ []"
    by (auto simp: analyze_pdf_with_gpt4v_def analyze_pdf_with_gpt4v_try_def)
  then show ?thesis by (intro exI[of _ 0]) auto
next
  case (Inr doc)
  from analyze_pdf_posts[OF assms[unfolded Inr]] obtain imgs where
    l: "length imgs \<le> min 10 (length doc)" and
    p: "posts w' = posts w @
       map (\<lambda>(i, img). PageRequest (Suc i) (b64encode lib img)) (enumerate 0 imgs)"
    by blast
  have "map request_stage
      (map (\<lambda>(i, img). PageRequest (Suc i) (b64encode lib img)) (enumerate 0 imgs))
      = replicate (length imgs) StyleStage"
    by (auto simp: map_replicate_const[symmetric] enumerate_eq_zip
        intro!: nth_equalityI)
  with l p show ?thesis by (intro exI[of _ "length imgs"]) auto
qed

lemma new_posts_append: "posts w' = posts w @ ps \<Longrightarrow> new_posts w w' = ps"
  by (simp add: new_posts_def)

lemma generate_ppt_slide_posts:
  assumes run: "generate_ppt_slide lib uploaded_file user_request w = (result, w')"
  shows "\<exists>n c s. n \<le> 10 \<and> c \<le> 1 \<and> s \<le> c \<and>
     map request_stage (new_posts w w') =
       replicate n StyleStage @ replicate c ContentStage @ replicate s SvgStage"
proof -
  obtain r1 w1 where
    s1: "analyze_pdf_with_gpt4v lib uploaded_file (emit (StatusOpen StyleStage) w) = (r1, w1)"
    by (cases "analyze_pdf_with_gpt4v lib uploaded_file (emit (StatusOpen StyleStage) w)")
  from analyze_pdf_page_posts[OF s1] obtain n ps where
    n: "n \<le> 10" and p1: "posts w1 = posts w @ ps"
    and st: "map request_stage ps = replicate n StyleStage"
    by auto
  have only_style: ?thesis if "posts w' = posts w1"
  proof -
    from that p1 have "new_posts w w' = ps" by (simp add: new_posts_append)
    with n st have "n \<le> 10 \<and> (0::nat) \<le> 1 \<and> (0::nat) \<le> 0 \<and>
        map request_stage (new_posts w w') =
          replicate n StyleStage @ replicate 0 ContentStage @ replicate 0 SvgStage"
      by simp
    then show ?thesis by blast
  qed
  show ?thesis
  proof (cases r1)
    case (Inl e)
    with run s1 have "posts w' = posts w1" by (simp add: generate_ppt_slide_def)
    then show ?thesis by (rule only_style)
  next
    case style: (Inr style_data)
    show ?thesis
    proof (cases "truthy style_data")
      case False
      with run s1 style have "posts w' = posts w1" by (auto simp: generate_ppt_slide_def)
      then show ?thesis by (rule only_style)
    next
      case ts: True
      obtain r2 w2 where
        s2: "process_user_request lib user_request
               (emit (StatusOpen ContentStage) (emit (StatusComplete StyleStage) w1)) = (r2, w2)"
        by (cases "process_user_request lib user_request
               (emit (StatusOpen ContentStage) (emit (StatusComplete StyleStage) w1))")
      have p2: "posts w2 = posts w @ ps @ [ContentRequest user_request]"
        using process_user_request_posts[OF s2] p1 by simp
      have upto_content: ?thesis if "posts w' = posts w2"
      proof -
        from that p2 have "new_posts w w' = ps @ [ContentRequest user_request]"
          by (simp add: new_posts_append)
        with n st have "n \<le> 10 \<and> (1::nat) \<le> 1 \<and> (0::nat) \<le> 1 \<and>
            map request_stage (new_posts w w') =
              replicate n StyleStage @ replicate 1 ContentStage @ replicate 0 SvgStage"
          by simp
        then show ?thesis by blast
      qed
      show ?thesis
      proof (cases r2)
        case (Inl e)
        with run s1 style ts s2 have "posts w' = posts w2"
          by (simp add: generate_ppt_slide_def)
        then show ?thesis by (rule upto_content)
      next
        case content: (Inr content_data)
        show ?thesis
        proof (cases "truthy content_data")
          case False
          with run s1 style ts s2 content have "posts w' = posts w2"
            by (auto simp: generate_ppt_slide_def)
          then show ?thesis by (rule upto_content)
        next
          case tc: True
          obtain r3 w3 where
            s3: "generate_svg lib style_data content_data
                   (emit (StatusOpen SvgStage) (emit (StatusComplete ContentStage) w2)) = (r3, w3)"
            by (cases "generate_svg lib style_data content_data
                   (emit (StatusOpen SvgStage) (emit (StatusComplete ContentStage) w2))")
          from run s1 style ts s2 content tc s3 have p': "posts w' = posts w3"
            by (auto simp: generate_ppt_slide_def split: sum.splits prod.splits if_splits)
          from generate_svg_posts[OF s3]
          have "posts w3 = posts w2 \<or> (\<exists>prompt. posts w3 = posts w2 @ [SvgRequest prompt])"
            by simp
          then show ?thesis
          proof
            assume "posts w3 = posts w2"
            with p' have "posts w' = posts w2" by simp
            then show ?thesis by (rule upto_content)
          next
            assume "\<exists>prompt. posts w3 = posts w2 @ [SvgRequest prompt]"
            then obtain prompt where "posts w3 = posts w2 @ [SvgRequest prompt]" by blast
            with p' p2 have
              "new_posts w w' = ps @ [ContentRequest user_request] @ [SvgRequest prompt]"
              by (simp add: new_posts_append)
            with n st have "n \<le> 10 \<and> (1::nat) \<le> 1 \<and> (1::nat) \<le> 1 \<and>
                map request_stage (new_posts w w') =
                  replicate n StyleStage @ replicate 1 ContentStage @ replicate 1 SvgStage"
              by simp
            then show ?thesis by blast
          qed
        qed
      qed
    qed
  qed
qed

text \<open>
  C4: generate_ppt_slide runs the style analysis of the uploaded PDF first. If its
  result is falsy (None in particular) the slide is None and the world is the one the
  analysis left, plus the status update: no later stage has run. Otherwise the
  content extraction runs from that world; if its result is falsy the slide is None
  and again nothing later has run. Otherwise generate_svg runs on the style and the
  content; if its SVG is falsy the slide is None, and otherwise the slide is the record
  of svg_content, extracted_style, processed_content and final_prompt. In every run
  the requests posted come in the order of the stages: at most ten of the style
  analysis, then at most one of the content extraction, then at most one of the SVG
  generation, and none of a stage whose predecessor posted none.
\<close>

theorem generate_ppt_slide_stages:
  assumes "analyze_pdf_with_gpt4v lib uploaded_file (emit (StatusOpen StyleStage) w)
             = (Inr style_data, w1)"
  shows "(\<not> truthy style_data \<longrightarrow>
            generate_ppt_slide lib uploaded_file user_request w
              = (Inr PNone, emit (StatusError StyleStage) w1))
       \<and> (truthy style_data \<longrightarrow>
            (\<forall>content_data w2.
               process_user_request lib user_request
                 (emit (StatusOpen ContentStage) (emit (StatusComplete StyleStage) w1))
                 = (Inr content_data, w2) \<longrightarrow>
               (\<not> truthy content_data \<longrightarrow>
                  generate_ppt_slide lib uploaded_file user_request w
                    = (Inr PNone, emit (StatusError ContentStage) w2))
             \<and> (truthy content_data \<longrightarrow>
                  (\<forall>svg_content final_prompt w3.
                     generate_svg lib style_data content_data
                       (emit (StatusOpen SvgStage) (emit (StatusComplete ContentStage) w2))
                       = (Inr (svg_content, final_prompt), w3) \<longrightarrow>
                     (\<not> truthy svg_content \<longrightarrow>
                        generate_ppt_slide lib uploaded_file user_request w
                          = (Inr PNone, emit (StatusError SvgStage) w3))
                   \<and> (truthy svg_content \<longrightarrow>
                        generate_ppt_slide lib uploaded_file user_request w
                          = (Inr (PDict
                               [(''svg_content'', svg_content),
                                (''extracted_style'', style_data),
                                (''processed_content'', content_data),
                                (''final_prompt'', final_prompt)]),
                             emit (StatusComplete SvgStage) w3))))))
       \<and> (\<forall>result w'.
            generate_ppt_slide lib uploaded_file user_request w = (result, w') \<longrightarrow>
            (\<exists>n c s. n \<le> 10 \<and> c \<le> 1 \<and> s \<le> c \<and>
               map request_stage (new_posts w w') =
                 replicate n StyleStage @ replicate c ContentStage @ replicate s SvgStage))"
proof (intro conjI)
  show "\<forall>result w'.
            generate_ppt_slide lib uploaded_file user_request w = (result, w') \<longrightarrow>
            (\<exists>n c s. n \<le> 10 \<and> c \<le> 1 \<and> s \<le> c \<and>
               map request_stage (new_posts w w') =
                 replicate n StyleStage @ replicate c ContentStage @ replicate s SvgStage)"
    using generate_ppt_slide_posts by blast
qed (use assms in \<open>simp_all add: generate_ppt_slide_def\<close>)

lemma pipeline_style_stage:
  "analyze_pdf_with_gpt4v example_lib (Inr [Inr ''png'']) (emit (StatusOpen StyleStage) pipeline_world)
     = (Inr example_style,
        \<lparr>replies =
           [Responds (chat_response (PStr content_json)),
            Responds (chat_response (PStr ''Here: <svg><rect/></svg> Done''))],
         trace = style_stage_events\<rparr>)"
  by (simp add: analyze_pdf_with_gpt4v_def analyze_pdf_with_gpt4v_try_def analyze_pages_as_list
      analyze_page_image_def analyze_page_image_try_def post_def emit_def pipeline_world_def
      chat_clean chat_status clean_fenced_style loads_example truthy_examples merge_styles_def
      style_stage_events_def Let_def b64_example)

lemma pipeline_content_stage:
  "process_user_request example_lib ''a sales chart''
     (emit (StatusOpen ContentStage) (emit (StatusComplete StyleStage)
        \<lparr>replies =
           [Responds (chat_response (PStr content_json)),
            Responds (chat_response (PStr ''Here: <svg><rect/></svg> Done''))],
         trace = style_stage_events\<rparr>))
     = (Inr example_content,
        \<lparr>replies = [Responds (chat_response (PStr ''Here: <svg><rect/></svg> Done''))],
         trace = style_stage_events @ content_stage_events\<rparr>)"
  by (simp add: process_user_request_def process_user_request_try_def post_def emit_def
      chat_clean chat_status clean_content_json loads_example content_stage_events_def)

lemma pipeline_svg_stage:
  "generate_svg example_lib example_style example_content
     (emit (StatusOpen SvgStage) (emit (StatusComplete ContentStage)
        \<lparr>replies = [Responds (chat_response (PStr ''Here: <svg><rect/></svg> Done''))],
         trace = style_stage_events @ content_stage_events\<rparr>))
     = (Inr (PStr ''<svg><rect/></svg>'', PStr (svg_prompt_text example_slots)),
        \<lparr>replies = [],
         trace = style_stage_events @ content_stage_events @ svg_stage_events\<rparr>)"
  by (simp add: generate_svg_def generate_svg_try_def example_prompt post_def emit_def
      chat_content chat_status str_find_def py_slice_def svg_stage_events_def)

text \<open>
  A successful run: one page, three replies, and the events of the three stages in
  their order.
\<close>

theorem generate_ppt_slide_stages_witness:
  "analyze_pdf_with_gpt4v example_lib (Inr [Inr ''png''])
     (emit (StatusOpen StyleStage) pipeline_world)
     = (Inr example_style,
        \<lparr>replies =
           [Responds (chat_response (PStr content_json)),
            Responds (chat_response (PStr ''Here: <svg><rect/></svg> Done''))],
         trace = style_stage_events\<rparr>)
 \<and> generate_ppt_slide example_lib (Inr [Inr ''png'']) ''a sales chart'' pipeline_world
     = (Inr (PDict
          [(''svg_content'', PStr ''<svg><rect/></svg>''),
           (''extracted_style'', example_style),
           (''processed_content'', example_content),
           (''final_prompt'', PStr (svg_prompt_text example_slots))]),
        \<lparr>replies = [],
         trace = style_stage_events @ content_stage_events @ svg_stage_events
                   @ [StatusComplete SvgStage]\<rparr>)
 \<and> map request_stage
       (new_posts pipeline_world
          \<lparr>replies = [],
           trace = style_stage_events @ content_stage_events @ svg_stage_events
                     @ [StatusComplete SvgStage]\<rparr>)
     = [StyleStage, ContentStage, SvgStage]"
proof -
  have order: "map request_stage
       (new_posts pipeline_world
          \<lparr>replies = [],
           trace = style_stage_events @ content_stage_events @ svg_stage_events
                     @ [StatusComplete SvgStage]\<rparr>)
     = [StyleStage, ContentStage, SvgStage]"
    by (simp add: new_posts_def posts_def pipeline_world_def style_stage_events_def
        content_stage_events_def svg_stage_events_def)
  from generate_ppt_slide_stages[OF pipeline_style_stage, of "''a sales chart''"]
    pipeline_content_stage pipeline_svg_stage truthy_examples
  have "generate_ppt_slide example_lib (Inr [Inr ''png'']) ''a sales chart'' pipeline_world
     = (Inr (PDict
          [(''svg_content'', PStr ''<svg><rect/></svg>''),
           (''extracted_style'', example_style),
           (''processed_content'', example_content),
           (''final_prompt'', PStr (svg_prompt_text example_slots))]),
        \<lparr>replies = [],
         trace = style_stage_events @ content_stage_events @ svg_stage_events
                   @ [StatusComplete SvgStage]\<rparr>)"
    by (simp add: emit_def)
  with pipeline_style_stage order show ?thesis by (intro conjI)
qed

section \<open>The prompt\<close>

lemma dict_get_field:
  "dict_get (PDict d) key dflt = Inr (case field key (PDict d) of Some v \<Rightarrow> v | None \<Rightarrow> dflt)"
  by (simp add: dict_get_def field_def split: option.splits)

lemma py_str_slot:
  "py_str lib (case field key d of Some v \<Rightarrow> v | None \<Rightarrow> PStr dflt) = slot lib d key dflt"
  by (simp add: slot_def py_str_def split: option.splits)

lemma the_strings_ok:
  "list_all is_str vs \<Longrightarrow> \<exists>ss. the_strings vs = Inr ss"
proof (induction vs)
  case Nil
  then show ?case by simp
next
  case (Cons v vs)
  then obtain s where "v = PStr s" by (cases v) simp_all
  with Cons show ?case by (auto simp: and_then_def)
qed

lemma str_join_ok:
  assumes "joinable xs"
  shows "\<exists>joined. str_join sep xs = Inr joined"
proof (cases xs)
  case (PList vs)
  with assms have "list_all is_str vs" by (simp add: joinable_def)
  then obtain ss where "the_strings vs = Inr ss" using the_strings_ok by blast
  with PList show ?thesis by (simp add: str_join_def and_then_def)
qed (use assms in \<open>simp_all add: joinable_def str_join_def\<close>)

lemma category_of_dict:
  assumes "prompt_inputs_ok style_data content_data" and "category \<in> set category_names"
  shows "\<exists>d. category_of category style_data = PDict d"
proof (cases "field category style_data")
  case None
  then show ?thesis by (simp add: category_of_def)
next
  case (Some c)
  with assms have "is_dict c" by (auto simp: prompt_inputs_ok_def list_all_iff)
  with Some show ?thesis by (cases c) (simp_all add: category_of_def)
qed

text \<open>
  C10, as amended: create_svg_prompt returns the fixed fallback prompt whenever
  style_data or content_data is falsy. Otherwise, when both are dictionaries, each
  category of the style that is present is a dictionary and specific_elements (when
  present) can be joined, it does not raise and returns the template in which every
  slot holds the value under its key, or the fixed default when the key is missing
  (primary color #1f4e79, title font Arial Bold, alignment center, content type
  diagram, and so on).
\<close>

theorem create_svg_prompt_defaults:
  "((\<not> truthy style_data \<or> \<not> truthy content_data) \<longrightarrow>
      create_svg_prompt lib style_data content_data = Inr fallback_prompt)
 \<and> (truthy style_data \<and> truthy content_data \<and> prompt_inputs_ok style_data content_data \<longrightarrow>
      (\<exists>joined.
         str_join '', '' (elements_of content_data) = Inr joined \<and>
         create_svg_prompt lib style_data content_data =
           Inr (svg_prompt_text
             \<lparr>content_type = slot lib content_data ''content_type'' ''diagram'',
              main_topic = slot lib content_data ''main_topic'' ''Technical diagram'',
              elements = joined,
              primary_color = slot lib (category_of ''color_palette'' style_data) ''primary'' ''#1f4e79'',
              secondary_color = slot lib (category_of ''color_palette'' style_data) ''secondary'' ''#5b9bd5'',
              accent_color = slot lib (category_of ''color_palette'' style_data) ''accent'' ''#f79646'',
              background_color = slot lib (category_of ''color_palette'' style_data) ''background'' ''#ffffff'',
              text_color = slot lib (category_of ''color_palette'' style_data) ''text'' ''#2f2f2f'',
              title_font = slot lib (category_of ''typography'' style_data) ''title_font'' ''Arial Bold'',
              body_font = slot lib (category_of ''typography'' style_data) ''body_font'' ''Arial Regular'',
              alignment = slot lib (category_of ''layout'' style_data) ''alignment'' ''center'',
              title_position = slot lib (category_of ''layout'' style_data) ''title_position'' ''top-center'',
              design_approach = slot lib (category_of ''visual_style'' style_data) ''design_approach'' ''professional''\<rparr>)))"
proof (intro conjI impI)
  assume "\<not> truthy style_data \<or> \<not> truthy content_data"
  then show "create_svg_prompt lib style_data content_data = Inr fallback_prompt"
    by (auto simp: create_svg_prompt_def)
next
  assume a: "truthy style_data \<and> truthy content_data \<and> prompt_inputs_ok style_data content_data"
  then have ok: "prompt_inputs_ok style_data content_data" by simp
  from ok obtain sd where sd: "style_data = PDict sd"
    by (cases style_data) (simp_all add: prompt_inputs_ok_def)
  from ok obtain cd where cd: "content_data = PDict cd"
    by (cases content_data) (simp_all add: prompt_inputs_ok_def)
  obtain colors where colors: "category_of ''color_palette'' style_data = PDict colors"
    using category_of_dict[OF ok, of "''color_palette''"] by (auto simp: category_names_def)
  obtain typo where typo: "category_of ''typography'' style_data = PDict typo"
    using category_of_dict[OF ok, of "''typography''"] by (auto simp: category_names_def)
  obtain lay where lay: "category_of ''layout'' style_data = PDict lay"
    using category_of_dict[OF ok, of "''layout''"] by (auto simp: category_names_def)
  obtain vis where vis: "category_of ''visual_style'' style_data = PDict vis"
    using category_of_dict[OF ok, of "''visual_style''"] by (auto simp: category_names_def)
  have "joinable (elements_of content_data)"
    using ok by (auto simp: prompt_inputs_ok_def elements_of_def joinable_def split: option.splits)
  then obtain joined where j: "str_join '', '' (elements_of content_data) = Inr joined"
    using str_join_ok by blast
  have g: "dict_get style_data category (PDict []) = Inr (category_of category style_data)"
    for category
    by (simp add: sd dict_get_field category_of_def)
  have e: "dict_get content_data ''specific_elements'' (PList []) = Inr (elements_of content_data)"
    by (simp add: cd dict_get_field elements_of_def)
  have "create_svg_prompt lib style_data content_data =
           Inr (svg_prompt_text
             \<lparr>content_type = slot lib content_data ''content_type'' ''diagram'',
              main_topic = slot lib content_data ''main_topic'' ''Technical diagram'',
              elements = joined,
              primary_color = slot lib (category_of ''color_palette'' style_data) ''primary'' ''#1f4e79'',
              secondary_color = slot lib (category_of ''color_palette'' style_data) ''secondary'' ''#5b9bd5'',
              accent_color = slot lib (category_of ''color_palette'' style_data) ''accent'' ''#f79646'',
              background_color = slot lib (category_of ''color_palette'' style_data) ''background'' ''#ffffff'',
              text_color = slot lib (category_of ''color_palette'' style_data) ''text'' ''#2f2f2f'',
              title_font = slot lib (category_of ''typography'' style_data) ''title_font'' ''Arial Bold'',
              body_font = slot lib (category_of ''typography'' style_data) ''body_font'' ''Arial Regular'',
              alignment = slot lib (category_of ''layout'' style_data) ''alignment'' ''center'',
              title_position = slot lib (category_of ''layout'' style_data) ''title_position'' ''top-center'',
              design_approach = slot lib (category_of ''visual_style'' style_data) ''design_approach'' ''professional''\<rparr>)"
    using a
    by (simp add: create_svg_prompt_def g e j and_then_def colors typo lay vis
        dict_get_field py_str_slot)
       (simp add: cd dict_get_field py_str_slot)
  with j show "\<exists>joined.
         str_join '', '' (elements_of content_data) = Inr joined \<and>
         create_svg_prompt lib style_data content_data =
           Inr (svg_prompt_text
             \<lparr>content_type = slot lib content_data ''content_type'' ''diagram'',
              main_topic = slot lib content_data ''main_topic'' ''Technical diagram'',
              elements = joined,
              primary_color = slot lib (category_of ''color_palette'' style_data) ''primary'' ''#1f4e79'',
              secondary_color = slot lib (category_of ''color_palette'' style_data) ''secondary'' ''#5b9bd5'',
              accent_color = slot lib (category_of ''color_palette'' style_data) ''accent'' ''#f79646'',
              background_color = slot lib (category_of ''color_palette'' style_data) ''background'' ''#ffffff'',
              text_color = slot lib (category_of ''color_palette'' style_data) ''text'' ''#2f2f2f'',
              title_font = slot lib (category_of ''typography'' style_data) ''title_font'' ''Arial Bold'',
              body_font = slot lib (category_of ''typography'' style_data) ''body_font'' ''Arial Regular'',
              alignment = slot lib (category_of ''layout'' style_data) ''alignment'' ''center'',
              title_position = slot lib (category_of ''layout'' style_data) ''title_position'' ''top-center'',
              design_approach = slot lib (category_of ''visual_style'' style_data) ''design_approach'' ''professional''\<rparr>)"
    by blast
qed

text \<open>
  A style with a primary color only and a content with a topic and two elements:
  every other slot holds its default.
\<close>

theorem create_svg_prompt_defaults_witness:
  "truthy example_style \<and> truthy example_content
 \<and> prompt_inputs_ok example_style example_content
 \<and> create_svg_prompt example_lib PNone example_content = Inr fallback_prompt
 \<and> create_svg_prompt example_lib example_style example_content
     = Inr (svg_prompt_text example_slots)"
proof -
  have ok: "prompt_inputs_ok example_style example_content"
    by (simp add: prompt_inputs_ok_def example_style_def example_content_def field_def
        category_names_def joinable_def)
  have f: "create_svg_prompt example_lib PNone example_content = Inr fallback_prompt"
    using create_svg_prompt_defaults[of PNone example_content example_lib] by simp
  have s: "slot example_lib example_content ''content_type'' ''diagram'' = ''diagram''"
    "slot example_lib example_content ''main_topic'' ''Technical diagram'' = ''Sales''"
    "slot example_lib (category_of ''color_palette'' example_style) ''primary'' ''#1f4e79'' = ''#112233''"
    "slot example_lib (category_of ''color_palette'' example_style) ''secondary'' ''#5b9bd5'' = ''#5b9bd5''"
    "slot example_lib (category_of ''color_palette'' example_style) ''accent'' ''#f79646'' = ''#f79646''"
    "slot example_lib (category_of ''color_palette'' example_style) ''background'' ''#ffffff'' = ''#ffffff''"
    "slot example_lib (category_of ''color_palette'' example_style) ''text'' ''#2f2f2f'' = ''#2f2f2f''"
    "slot example_lib (category_of ''typography'' example_style) ''title_font'' ''Arial Bold'' = ''Arial Bold''"
    "slot example_lib (category_of ''typography'' example_style) ''body_font'' ''Arial Regular'' = ''Arial Regular''"
    "slot example_lib (category_of ''layout'' example_style) ''alignment'' ''center'' = ''center''"
    "slot example_lib (category_of ''layout'' example_style) ''title_position'' ''top-center'' = ''top-center''"
    "slot example_lib (category_of ''visual_style'' example_style) ''design_approach'' ''professional'' = ''professional''"
    by (simp_all add: slot_def category_of_def field_def example_style_def example_content_def
        py_str_def)
  have j: "str_join '', '' (elements_of example_content) = Inr ''bars, legend''"
    by (simp add: elements_of_def field_def example_content_def str_join_def and_then_def)
  from create_svg_prompt_defaults[of example_style example_content example_lib]
    truthy_examples ok j
  have "create_svg_prompt example_lib example_style example_content
     = Inr (svg_prompt_text example_slots)"
    by (simp add: s example_slots_def)
  with truthy_examples ok f show ?thesis by simp
qed

text \<open>
  C10 as stated fails: a style whose color_palette is None (JSON null) is truthy,
  and \<^verbatim>\<open>colors.get\<close> raises AttributeError on it.
\<close>

theorem create_svg_prompt_total_counterexample:
  "truthy (PDict [(''color_palette'', PNone)])
 \<and> truthy example_content
 \<and> create_svg_prompt example_lib (PDict [(''color_palette'', PNone)]) example_content
     = Inl AttributeError"
  by (simp add: create_svg_prompt_def example_content_def dict_get_def and_then_def)

end
